theory Spec2Isabelle
  imports Complex_Main "HOL-Library.Multiset"
begin

section \<open>Python values used by the crop recommender\<close>

text \<open>
  A Python \<open>str\<close> is a sequence of Unicode code points, so it is modelled as a list of
  natural numbers. \<open>str\<close> turns an ASCII literal of the source into that representation.
\<close>

type_synonym pystr = "nat list"

definition str :: "string \<Rightarrow> pystr" where
  "str cs = map of_char cs"

text \<open>
  The code points that \<open>str.strip()\<close> removes when called without an argument: the ones
  for which CPython's \<open>str.isspace\<close> holds.
\<close>

definition isspace :: "nat \<Rightarrow> bool" where
  "isspace c \<longleftrightarrow>
     (9 \<le> c \<and> c \<le> 13) \<or> (28 \<le> c \<and> c \<le> 32) \<or> c = 133 \<or> c = 160 \<or> c = 5760 \<or>
     (8192 \<le> c \<and> c \<le> 8202) \<or> c = 8232 \<or> c = 8233 \<or> c = 8239 \<or> c = 8287 \<or> c = 12288"

definition strip :: "pystr \<Rightarrow> pystr" where
  "strip s = rev (dropWhile isspace (rev (dropWhile isspace s)))"

datatype py_error = IndexError | KeyError

text \<open>\<open>d.get(k, "")\<close> on a dictionary whose values are strings.\<close>

definition get_str :: "(pystr \<rightharpoonup> pystr) \<Rightarrow> pystr \<Rightarrow> pystr" where
  "get_str d k = (case d k of None \<Rightarrow> [] | Some v \<Rightarrow> v)"

text \<open>
  \<open>sorted(xs, key=key, reverse=True)\<close>. CPython reverses the list, sorts it ascending with
  a stable sort and reverses the outcome, which keeps elements of equal key in their
  original order. \<open>sort_key\<close> is a stable insertion sort.
\<close>

definition sorted_reverse :: "('a \<Rightarrow> 'k::linorder) \<Rightarrow> 'a list \<Rightarrow> 'a list" where
  "sorted_reverse key xs = rev (sort_key key (rev xs))"


section \<open>crop\_model.py\<close>

text \<open>
  A rule is one dictionary of the literal \<open>RULES\<close>. The scores are float literals that the
  program only copies and compares; each is represented by the decimal fraction it is
  written as. Rounding a decimal literal to a double is monotone and keeps the two-digit
  literals of the table distinct, so order and equality of the scores are those of the
  fractions.
\<close>

record rule =
  rule_district :: pystr
  rule_season :: pystr
  rule_soil_types :: "pystr list"
  rule_irrigation :: "pystr list"
  rule_crops :: "(pystr \<times> rat) list"

definition RULES :: "rule list" where
  "RULES = [
    \<lparr>rule_district = str ''Siruguppa'', rule_season = str ''Kharif'',
     rule_soil_types = [str ''Red soil'', str ''Black soil'', str ''Alluvial soil''],
     rule_irrigation = [str ''Canal'', str ''Borewell''],
     rule_crops = [(str ''Paddy'', 0.55), (str ''Maize'', 0.25), (str ''Cotton'', 0.12),
                   (str ''Red gram'', 0.08)]\<rparr>,
    \<lparr>rule_district = str ''Siruguppa'', rule_season = str ''Rabi'',
     rule_soil_types = [str ''Red soil'', str ''Black soil''],
     rule_irrigation = [str ''Borewell'', str ''Canal''],
     rule_crops = [(str ''Wheat'', 0.4), (str ''Chickpea'', 0.35), (str ''Sunflower'', 0.25)]\<rparr>,
    \<lparr>rule_district = str ''Siruguppa'', rule_season = str ''Zaid'',
     rule_soil_types = [str ''Red soil'', str ''Alluvial soil''],
     rule_irrigation = [str ''Borewell''],
     rule_crops = [(str ''Maize'', 0.45), (str ''Vegetables'', 0.35),
                   (str ''Fodder maize'', 0.20)]\<rparr>,
    \<lparr>rule_district = str ''Sindhanur'', rule_season = str ''Kharif'',
     rule_soil_types = [str ''Red soil'', str ''Black soil'', str ''Alluvial soil''],
     rule_irrigation = [str ''Canal'', str ''Borewell''],
     rule_crops = [(str ''Paddy'', 0.65), (str ''Maize'', 0.2), (str ''Soybean'', 0.1),
                   (str ''Cotton'', 0.05)]\<rparr>,
    \<lparr>rule_district = str ''Sindhanur'', rule_season = str ''Rabi'',
     rule_soil_types = [str ''Red soil'', str ''Black soil''],
     rule_irrigation = [str ''Borewell''],
     rule_crops = [(str ''Paddy'', 0.5), (str ''Wheat'', 0.25), (str ''Chickpea'', 0.25)]\<rparr>,
    \<lparr>rule_district = str ''Sindhanur'', rule_season = str ''Zaid'',
     rule_soil_types = [str ''Red soil'', str ''Alluvial soil''],
     rule_irrigation = [str ''Borewell''],
     rule_crops = [(str ''Vegetables'', 0.4), (str ''Maize'', 0.35),
                   (str ''Fodder maize'', 0.25)]\<rparr>,
    \<lparr>rule_district = str ''Gangavathi'', rule_season = str ''Kharif'',
     rule_soil_types = [str ''Red soil'', str ''Black soil'', str ''Alluvial soil''],
     rule_irrigation = [str ''Canal'', str ''Borewell''],
     rule_crops = [(str ''Paddy'', 0.5), (str ''Groundnut'', 0.2), (str ''Maize'', 0.15),
                   (str ''Cotton'', 0.15)]\<rparr>,
    \<lparr>rule_district = str ''Gangavathi'', rule_season = str ''Rabi'',
     rule_soil_types = [str ''Red soil'', str ''Black soil''],
     rule_irrigation = [str ''Borewell''],
     rule_crops = [(str ''Groundnut'', 0.4), (str ''Sunflower'', 0.3), (str ''Chickpea'', 0.3)]\<rparr>,
    \<lparr>rule_district = str ''Gangavathi'', rule_season = str ''Zaid'',
     rule_soil_types = [str ''Red soil'', str ''Alluvial soil''],
     rule_irrigation = [str ''Borewell''],
     rule_crops = [(str ''Vegetables'', 0.4), (str ''Maize'', 0.3),
                   (str ''Fodder maize'', 0.3)]\<rparr>,
    \<lparr>rule_district = str ''Vijaypur'', rule_season = str ''Kharif'',
     rule_soil_types = [str ''Black soil'', str ''Red soil''],
     rule_irrigation = [str ''Rainfed'', str ''Borewell''],
     rule_crops = [(str ''Jowar'', 0.45), (str ''Bajra'', 0.25), (str ''Cotton'', 0.2),
                   (str ''Red gram'', 0.1)]\<rparr>,
    \<lparr>rule_district = str ''Vijaypur'', rule_season = str ''Rabi'',
     rule_soil_types = [str ''Black soil''],
     rule_irrigation = [str ''Rainfed'', str ''Borewell''],
     rule_crops = [(str ''Wheat'', 0.4), (str ''Chickpea'', 0.35), (str ''Linseed'', 0.25)]\<rparr>,
    \<lparr>rule_district = str ''Vijaypur'', rule_season = str ''Zaid'',
     rule_soil_types = [str ''Red soil'', str ''Black soil''],
     rule_irrigation = [str ''Borewell''],
     rule_crops = [(str ''Vegetables'', 0.5), (str ''Fodder maize'', 0.3),
                   (str ''Maize'', 0.2)]\<rparr>
  ]"

subsection \<open>\<open>CropRecommender._match_rules\<close>\<close>

text \<open>
  The \<open>for rule in RULES\<close> loop, with the three lists it appends to as the accumulator.
  The table the loop reads is the global \<open>RULES\<close>; it is an argument here, so that the
  matching can also be studied on other tables.
\<close>

fun match_loop ::
  "rule list \<Rightarrow> pystr \<Rightarrow> pystr \<Rightarrow> pystr \<Rightarrow> pystr \<Rightarrow>
   rule list \<times> rule list \<times> rule list \<Rightarrow> rule list \<times> rule list \<times> rule list" where
  "match_loop [] district season soil_type irrigation_source acc = acc"
| "match_loop (rule # rest) district season soil_type irrigation_source
     (exact_matches, soil_matches, season_matches) =
     (if rule_district rule \<noteq> district then
        match_loop rest district season soil_type irrigation_source
          (exact_matches, soil_matches, season_matches)
      else if rule_season rule \<noteq> season then
        match_loop rest district season soil_type irrigation_source
          (exact_matches, soil_matches, season_matches)
      else if soil_type \<in> set (rule_soil_types rule) \<and>
              irrigation_source \<in> set (rule_irrigation rule) then
        match_loop rest district season soil_type irrigation_source
          (exact_matches @ [rule], soil_matches, season_matches)
      else if soil_type \<in> set (rule_soil_types rule) then
        match_loop rest district season soil_type irrigation_source
          (exact_matches, soil_matches @ [rule], season_matches)
      else
        match_loop rest district season soil_type irrigation_source
          (exact_matches, soil_matches, season_matches @ [rule]))"

definition match_rules :: "rule list \<Rightarrow> pystr \<Rightarrow> pystr \<Rightarrow> pystr \<Rightarrow> pystr \<Rightarrow> rule list" where
  "match_rules rules district season soil_type irrigation_source =
     (case match_loop rules (strip district) (strip season) (strip soil_type)
             (strip irrigation_source) ([], [], []) of
        (exact_matches, soil_matches, season_matches) \<Rightarrow>
          if exact_matches \<noteq> [] then exact_matches
          else if soil_matches \<noteq> [] then soil_matches
          else season_matches)"

subsection \<open>\<open>CropRecommender.recommend\<close>\<close>

record prediction =
  crop :: pystr
  score :: rat

record recommendation =
  recommended_crop :: pystr
  top_predictions :: "prediction list"

text \<open>\<open>xs[0][0]\<close> on a list of pairs: \<open>IndexError\<close> when the list is empty.\<close>

definition first_label :: "(pystr \<times> rat) list \<Rightarrow> py_error + pystr" where
  "first_label xs = (case xs of [] \<Rightarrow> Inl IndexError | (c, s) # rest \<Rightarrow> Inr c)"

text \<open>\<open>[{"crop": c, "score": float(s)} for c, s in xs]\<close>; \<open>float\<close> of a float is that float.\<close>

definition to_predictions :: "(pystr \<times> rat) list \<Rightarrow> prediction list" where
  "to_predictions xs = map (\<lambda>(c, s). \<lparr>crop = c, score = s\<rparr>) xs"

definition fallback_crops :: "(pystr \<times> rat) list" where
  "fallback_crops = [(str ''Paddy'', 0.4), (str ''Maize'', 0.35), (str ''Chickpea'', 0.25)]"

text \<open>
  \<open>input_data\<close> is the dictionary of strings that the route builds from its request model.
  The first argument is the table that \<open>_match_rules\<close> scans. The \<open>print\<close> calls of the
  source write to standard output and change no value; they are left out, here and in
  the yield predictor.
\<close>

definition recommend_over :: "rule list \<Rightarrow> (pystr \<rightharpoonup> pystr) \<Rightarrow> py_error + recommendation" where
  "recommend_over rules input_data =
     (let district = get_str input_data (str ''district'');
          soil_type = get_str input_data (str ''soil_type'');
          season = get_str input_data (str ''season'');
          irrigation_source = get_str input_data (str ''irrigation_source'');
          matching_rules = match_rules rules district season soil_type irrigation_source
      in case matching_rules of
           [] \<Rightarrow>
             (case first_label fallback_crops of
                Inl e \<Rightarrow> Inl e
              | Inr recommended \<Rightarrow>
                  Inr \<lparr>recommended_crop = recommended,
                       top_predictions = to_predictions fallback_crops\<rparr>)
         | rule # others \<Rightarrow>
             (let crops_sorted = sorted_reverse snd (rule_crops rule)
              in case first_label crops_sorted of
                   Inl e \<Rightarrow> Inl e
                 | Inr recommended \<Rightarrow>
                     Inr \<lparr>recommended_crop = recommended,
                          top_predictions = to_predictions (take 3 crops_sorted)\<rparr>))"

definition recommend :: "(pystr \<rightharpoonup> pystr) \<Rightarrow> py_error + recommendation" where
  "recommend input_data = recommend_over RULES input_data"


section \<open>yield\_model.py\<close>

text \<open>
  scikit-learn's \<open>LabelEncoder\<close> is not code of this repository. The predictor reads its
  \<open>classes_\<close> (the fitted vocabulary, sorted and without duplicates) and calls
  \<open>transform\<close> on one value, which returns the position of the value in \<open>classes_\<close> and
  raises \<open>ValueError\<close> for a value that is not there.
\<close>

record label_encoder =
  classes :: "pystr list"

datatype lib_error = ValueError

definition transform :: "label_encoder \<Rightarrow> pystr \<Rightarrow> lib_error + nat" where
  "transform le v =
     (if v \<in> set (classes le) then Inr (length (takeWhile (\<lambda>c. c \<noteq> v) (classes le)))
      else Inl ValueError)"

text \<open>A cell of the one-row data frame: the request's text, or the integer code put in its place.\<close>

datatype cell = Text pystr | Code nat

record 'm yield_predictor =
  model :: "'m option"
  label_encoders :: "pystr \<rightharpoonup> label_encoder"
  is_trained_on_real_data :: bool

definition features :: "pystr list" where
  "features = [str ''state'', str ''district'', str ''crop_name'', str ''soil_type'',
               str ''season'', str ''irrigation_source'']"

record 'y yield_result =
  predicted_yield :: 'y
  confidence :: 'y
  recommendations :: "pystr list"
  prediction_id :: pystr
  data_source :: pystr

text \<open>
  What \<open>predict\<close> and its route get from outside the repository: the two \<open>joblib.load\<close> calls
  (\<open>None\<close> when the call raises), the fitted estimator's \<open>predict(input_df)[0]\<close> (\<open>None\<close>
  when it raises), \<open>round(_, 2)\<close> on its floating-point outcome, the numbers drawn from
  \<open>np.random\<close> (already rounded, one for each of the two intervals of
  \<open>_calculate_confidence\<close>, and the decimal text of the drawn identifier), and the storing
  of the request and its prediction in the database (\<open>Inl\<close> the text of the exception
  raised on the way, \<open>Inr\<close> the text of the inserted identifier). The type \<open>'y\<close> stands for the floats.
\<close>

record ('m, 'y) world =
  load_model :: "'m option"
  load_encoders :: "(pystr \<rightharpoonup> label_encoder) option"
  model_predict :: "'m \<Rightarrow> (pystr \<times> cell) list \<Rightarrow> 'y option"
  round2 :: "'y \<Rightarrow> 'y"
  uniform_real :: 'y
  uniform_sample :: 'y
  randint_text :: pystr
  insert_one :: "(pystr \<rightharpoonup> pystr) \<Rightarrow> 'y yield_result \<Rightarrow> pystr + pystr"

subsection \<open>\<open>YieldPredictor._calculate_confidence\<close> and \<open>_generate_recommendations\<close>\<close>

definition calculate_confidence :: "('m, 'y) world \<Rightarrow> 'm yield_predictor \<Rightarrow> 'y" where
  "calculate_confidence w self =
     (if is_trained_on_real_data self then uniform_real w else uniform_sample w)"

definition soil_recs :: "pystr \<rightharpoonup> pystr" where
  "soil_recs = map_of [
     (str ''Red soil'', str ''Add organic compost and phosphorus fertilizers''),
     (str ''Laterite soil'', str ''Apply lime to reduce acidity and add organic matter''),
     (str ''Black soil'', str ''Good for cotton and cereals, maintain proper drainage''),
     (str ''Alluvial soil'', str ''Rich in nutrients, suitable for multiple crops'')]"

definition irrigation_recs :: "pystr \<rightharpoonup> pystr" where
  "irrigation_recs = map_of [
     (str ''Rainfed'', str ''Consider water harvesting and drought-resistant varieties''),
     (str ''Drip'', str ''Maintain system efficiency and monitor soil moisture''),
     (str ''Canal'', str ''Schedule irrigation based on water availability''),
     (str ''Well'', str ''Monitor water table and use efficiently'')]"

text \<open>\<open>input_data[k]\<close> raises \<open>KeyError\<close> for a missing key; the yield value is not used.\<close>

definition generate_recommendations :: "(pystr \<rightharpoonup> pystr) \<Rightarrow> 'y \<Rightarrow> py_error + pystr list" where
  "generate_recommendations input_data yield_value =
     (case input_data (str ''soil_type'') of
        None \<Rightarrow> Inl KeyError
      | Some soil \<Rightarrow>
          (case input_data (str ''irrigation_source'') of
             None \<Rightarrow> Inl KeyError
           | Some irrigation \<Rightarrow>
               (case input_data (str ''season'') of
                  None \<Rightarrow> Inl KeyError
                | Some season \<Rightarrow>
                    Inr ((case soil_recs soil of None \<Rightarrow> [] | Some t \<Rightarrow> [t]) @
                         (case irrigation_recs irrigation of None \<Rightarrow> [] | Some t \<Rightarrow> [t]) @
                         (if season = str ''Kharif'' then
                            [str ''Monitor for monsoon pests and ensure proper drainage'']
                          else if season = str ''Rabi'' then
                            [str ''Protect from frost and ensure timely irrigation'']
                          else []) @
                         [str ''Get soil tested every season for balanced fertilization'',
                          str ''Practice crop rotation to maintain soil health'',
                          str ''Use certified seeds for better yield'']))))"

subsection \<open>\<open>YieldPredictor.predict\<close>\<close>

text \<open>
  \<open>available_features\<close> with the request's value of each: the features, in the order of
  \<open>self.features\<close>, that are keys of \<open>input_data\<close>.
\<close>

definition available_features :: "(pystr \<rightharpoonup> pystr) \<Rightarrow> (pystr \<times> pystr) list" where
  "available_features input_data =
     List.map_filter (\<lambda>f. case input_data f of None \<Rightarrow> None | Some v \<Rightarrow> Some (f, v)) features"

text \<open>
  One round of the encoding loop. Without an encoder for the feature the cell keeps the
  request's text. Whatever is raised inside the \<open>try\<close> is caught and the code 0 is stored.
\<close>

definition encode_feature :: "(pystr \<rightharpoonup> label_encoder) \<Rightarrow> pystr \<times> pystr \<Rightarrow> pystr \<times> cell" where
  "encode_feature encoders fv =
     (case fv of (feature, v) \<Rightarrow>
        (case encoders feature of
           None \<Rightarrow> (feature, Text v)
         | Some le \<Rightarrow>
             (if v \<in> set (classes le) then
                (case transform le v of Inr code \<Rightarrow> (feature, Code code)
                                      | Inl e \<Rightarrow> (feature, Code 0))
              else (feature, Code 0))))"

definition encode_row :: "(pystr \<rightharpoonup> label_encoder) \<Rightarrow> (pystr \<rightharpoonup> pystr) \<Rightarrow> (pystr \<times> cell) list" where
  "encode_row encoders input_data = map (encode_feature encoders) (available_features input_data)"

text \<open>The part of \<open>predict\<close> after the model is in memory; every exception of its \<open>try\<close> gives \<open>None\<close>.\<close>

definition predict_with ::
  "('m, 'y) world \<Rightarrow> 'm yield_predictor \<Rightarrow> 'm \<Rightarrow> (pystr \<rightharpoonup> pystr) \<Rightarrow> 'y yield_result option" where
  "predict_with w self m input_data =
     (case model_predict w m (encode_row (label_encoders self) input_data) of
        None \<Rightarrow> None
      | Some prediction \<Rightarrow>
          (case generate_recommendations input_data prediction of
             Inl e \<Rightarrow> None
           | Inr recs \<Rightarrow>
               Some \<lparr>predicted_yield = round2 w prediction,
                     confidence = calculate_confidence w self,
                     recommendations = recs,
                     prediction_id = str ''yield_'' @ randint_text w,
                     data_source = (if is_trained_on_real_data self then str ''real''
                                    else str ''sample'')\<rparr>))"

text \<open>
  \<open>predict\<close> returns its value together with the predictor as the call leaves it. When the
  first \<open>joblib.load\<close> succeeds and the second raises, \<open>self.model\<close> has already been set.
\<close>

definition predict ::
  "('m, 'y) world \<Rightarrow> 'm yield_predictor \<Rightarrow> (pystr \<rightharpoonup> pystr) \<Rightarrow>
   'y yield_result option \<times> 'm yield_predictor" where
  "predict w self input_data =
     (case model self of
        Some m \<Rightarrow> (predict_with w self m input_data, self)
      | None \<Rightarrow>
          (case load_model w of
             None \<Rightarrow> (None, self)
           | Some m \<Rightarrow>
               (case load_encoders w of
                  None \<Rightarrow> (None, self\<lparr>model := Some m\<rparr>)
                | Some encoders \<Rightarrow>
                    (let self' = self\<lparr>model := Some m, label_encoders := encoders,
                                      is_trained_on_real_data := True\<rparr>
                     in (predict_with w self' m input_data, self')))))"

subsection \<open>\<open>predict_yield_route\<close> (yield\_routes.py)\<close>

datatype http_exception = HTTPException nat pystr

record 'y yield_response =
  prediction_result :: "'y yield_result"
  success :: bool
  stored_in_db :: bool

definition required_fields :: "pystr list" where
  "required_fields = [str ''crop_name'', str ''soil_type'', str ''season'',
                      str ''irrigation_source'', str ''state'', str ''district'']"

definition model_features :: "pystr list" where
  "model_features = [str ''state'', str ''district'', str ''crop_name'', str ''soil_type'',
                     str ''season'', str ''irrigation_source'']"

text \<open>\<open>field not in yield_data or not yield_data[field]\<close>, for values that are strings.\<close>

definition missing :: "(pystr \<rightharpoonup> pystr) \<Rightarrow> pystr \<Rightarrow> bool" where
  "missing yield_data field = (case yield_data field of None \<Rightarrow> True | Some v \<Rightarrow> v = [])"

definition predict_yield_route ::
  "('m, 'y) world \<Rightarrow> 'm yield_predictor \<Rightarrow> (pystr \<rightharpoonup> pystr) \<Rightarrow>
   (http_exception + 'y yield_response) \<times> 'm yield_predictor" where
  "predict_yield_route w self yield_data =
     (case List.find (missing yield_data) required_fields of
        Some field \<Rightarrow> (Inl (HTTPException 400 (str ''Missing required field: '' @ field)), self)
      | None \<Rightarrow>
          (let model_input = yield_data |` set model_features
           in case predict w self model_input of
                (None, self') \<Rightarrow>
                  (Inl (HTTPException 500 (str ''Prediction model not available'')), self')
              | (Some res, self') \<Rightarrow>
                  (case insert_one w yield_data res of
                     Inl e \<Rightarrow> (Inl (HTTPException 500 (str ''Prediction failed: '' @ e)), self')
                   | Inr inserted_id \<Rightarrow>
                       (Inr \<lparr>prediction_result = res\<lparr>prediction_id := inserted_id\<rparr>,
                             success = True, stored_in_db = True\<rparr>, self'))))"


section \<open>The matcher in the words of its specification\<close>

text \<open>
  The definitions of this section follow the specification, not the code: the candidate
  set, the three buckets, the winning rule, the answer computed from one rule and the
  generic fallback. The theorems below compare them with the functions above.
\<close>

definition is_candidate :: "pystr \<Rightarrow> pystr \<Rightarrow> rule \<Rightarrow> bool" where
  "is_candidate region period r \<longleftrightarrow> rule_district r = region \<and> rule_season r = period"

definition in_exact :: "pystr \<Rightarrow> pystr \<Rightarrow> rule \<Rightarrow> bool" where
  "in_exact soil water r \<longleftrightarrow>
     soil \<in> set (rule_soil_types r) \<and> water \<in> set (rule_irrigation r)"

definition in_soil_only :: "pystr \<Rightarrow> pystr \<Rightarrow> rule \<Rightarrow> bool" where
  "in_soil_only soil water r \<longleftrightarrow>
     soil \<in> set (rule_soil_types r) \<and> water \<notin> set (rule_irrigation r)"

definition in_residual :: "pystr \<Rightarrow> rule \<Rightarrow> bool" where
  "in_residual soil r \<longleftrightarrow> soil \<notin> set (rule_soil_types r)"

definition candidates :: "rule list \<Rightarrow> pystr \<Rightarrow> pystr \<Rightarrow> rule list" where
  "candidates rules region period = filter (is_candidate region period) rules"

definition exact_bucket :: "rule list \<Rightarrow> pystr \<Rightarrow> pystr \<Rightarrow> pystr \<Rightarrow> pystr \<Rightarrow> rule list" where
  "exact_bucket rules region period soil water =
     filter (in_exact soil water) (candidates rules region period)"

definition soil_only_bucket :: "rule list \<Rightarrow> pystr \<Rightarrow> pystr \<Rightarrow> pystr \<Rightarrow> pystr \<Rightarrow> rule list" where
  "soil_only_bucket rules region period soil water =
     filter (in_soil_only soil water) (candidates rules region period)"

definition residual_bucket :: "rule list \<Rightarrow> pystr \<Rightarrow> pystr \<Rightarrow> pystr \<Rightarrow> rule list" where
  "residual_bucket rules region period soil =
     filter (in_residual soil) (candidates rules region period)"

text \<open>
  The first rule, in the order of the table, of the first non-empty bucket in the order
  exact, soil-only, residual; \<open>None\<close> when there is no candidate.
\<close>

definition winning_rule :: "rule list \<Rightarrow> pystr \<Rightarrow> pystr \<Rightarrow> pystr \<Rightarrow> pystr \<Rightarrow> rule option" where
  "winning_rule rules region period soil water =
     (case List.find (\<lambda>r. is_candidate region period r \<and> in_exact soil water r) rules of
        Some r \<Rightarrow> Some r
      | None \<Rightarrow>
          (case List.find (\<lambda>r. is_candidate region period r \<and> in_soil_only soil water r) rules of
             Some r \<Rightarrow> Some r
           | None \<Rightarrow> List.find (\<lambda>r. is_candidate region period r \<and> in_residual soil r) rules))"

text \<open>
  Steps 6 and 7: the options of one rule, sorted descending by weight, the best label and
  the first three. The program fails with \<open>IndexError\<close> on a rule without options.
\<close>

definition answer_of_rule :: "rule \<Rightarrow> py_error + recommendation" where
  "answer_of_rule r =
     (case sorted_reverse snd (rule_crops r) of
        [] \<Rightarrow> Inl IndexError
      | best # rest \<Rightarrow>
          Inr \<lparr>recommended_crop = fst best,
               top_predictions = to_predictions (take 3 (best # rest))\<rparr>)"

definition fallback_result :: recommendation where
  "fallback_result =
     \<lparr>recommended_crop = str ''Paddy'',
      top_predictions = [\<lparr>crop = str ''Paddy'', score = 0.40\<rparr>,
                         \<lparr>crop = str ''Maize'', score = 0.35\<rparr>,
                         \<lparr>crop = str ''Chickpea'', score = 0.25\<rparr>]\<rparr>"

text \<open>The query with the white space at both ends of every value removed.\<close>

definition trim :: "(pystr \<rightharpoonup> pystr) \<Rightarrow> (pystr \<rightharpoonup> pystr)" where
  "trim input_data = (\<lambda>k. map_option strip (input_data k))"

text \<open>The four fields of a query as the matcher compares them.\<close>

definition region_of :: "(pystr \<rightharpoonup> pystr) \<Rightarrow> pystr" where
  "region_of input_data = strip (get_str input_data (str ''district''))"

definition period_of :: "(pystr \<rightharpoonup> pystr) \<Rightarrow> pystr" where
  "period_of input_data = strip (get_str input_data (str ''season''))"

definition soil_of :: "(pystr \<rightharpoonup> pystr) \<Rightarrow> pystr" where
  "soil_of input_data = strip (get_str input_data (str ''soil_type''))"

definition water_of :: "(pystr \<rightharpoonup> pystr) \<Rightarrow> pystr" where
  "water_of input_data = strip (get_str input_data (str ''irrigation_source''))"

definition query_keys :: "pystr list" where
  "query_keys = [str ''district'', str ''season'', str ''soil_type'', str ''irrigation_source'']"


text \<open>The dictionary that the route of crop\_routes.py builds from a request and passes to \<open>recommend\<close>.\<close>

definition crop_model_input :: "pystr \<Rightarrow> pystr \<Rightarrow> pystr \<Rightarrow> pystr \<Rightarrow> pystr \<Rightarrow> (pystr \<rightharpoonup> pystr)" where
  "crop_model_input state district soil_type season irrigation_source =
     [str ''state'' \<mapsto> state, str ''district'' \<mapsto> district, str ''soil_type'' \<mapsto> soil_type,
      str ''season'' \<mapsto> season, str ''irrigation_source'' \<mapsto> irrigation_source]"

text \<open>The list that \<open>recommend\<close> gets from \<open>_match_rules\<close> for a query.\<close>

definition matching_rules :: "rule list \<Rightarrow> (pystr \<rightharpoonup> pystr) \<Rightarrow> rule list" where
  "matching_rules rules input_data =
     match_rules rules (get_str input_data (str ''district'')) (get_str input_data (str ''season''))
       (get_str input_data (str ''soil_type'')) (get_str input_data (str ''irrigation_source''))"

text \<open>
  A table for examples, with two rules for one district and season, as the specification
  allows: for Red soil and Drip the first rule matches on the soil only and the second one
  exactly. The options of the second rule are not sorted and have equal weights.
\<close>

definition two_rule_table :: "rule list" where
  "two_rule_table = [
    \<lparr>rule_district = str ''Siruguppa'', rule_season = str ''Kharif'',
     rule_soil_types = [str ''Red soil''],
     rule_irrigation = [str ''Canal''],
     rule_crops = [(str ''Paddy'', 0.55), (str ''Maize'', 0.25)]\<rparr>,
    \<lparr>rule_district = str ''Siruguppa'', rule_season = str ''Kharif'',
     rule_soil_types = [str ''Red soil'', str ''Black soil''],
     rule_irrigation = [str ''Drip''],
     rule_crops = [(str ''Cotton'', 0.2), (str ''Chilli'', 0.5), (str ''Groundnut'', 0.2),
                   (str ''Maize'', 0.5)]\<rparr>
  ]"

text \<open>Queries for examples, as the route passes them on.\<close>

definition drip_query :: "pystr \<rightharpoonup> pystr" where
  "drip_query = crop_model_input (str ''Karnataka'') (str ''Siruguppa'') (str ''Red soil'')
     (str ''Kharif'') (str ''Drip'')"

definition red_soil_rabi_query :: "pystr \<rightharpoonup> pystr" where
  "red_soil_rabi_query = crop_model_input (str ''Karnataka'') (str ''Vijaypur'') (str ''Red soil'')
     (str ''Rabi'') (str ''Canal'')"

definition gangavathi_query :: "pystr \<rightharpoonup> pystr" where
  "gangavathi_query = crop_model_input (str ''Karnataka'') (str ''Gangavathi'') (str ''Black soil'')
     (str ''Kharif'') (str ''Canal'')"

text \<open>The same query with white space around its values: spaces, a tab, a line feed, U+00A0 and U+3000.\<close>

definition padded_query :: "pystr \<rightharpoonup> pystr" where
  "padded_query = crop_model_input (str ''Karnataka'') (str ''  Gangavathi '')
     ([9, 160] @ str ''Black soil'') (str ''Kharif'' @ [12288, 10]) (str '' Canal'')"

text \<open>\<open>YieldPredictor.__init__\<close>: the predictor before any call.\<close>

definition new_predictor :: "'m yield_predictor" where
  "new_predictor = \<lparr>model = None, label_encoders = Map.empty, is_trained_on_real_data = False\<rparr>"

text \<open>
  An outside world for examples: saved files that load, with a vocabulary for each
  feature, and an estimator that rejects a row with text in it, as scikit-learn does.
\<close>

definition example_encoders :: "pystr \<rightharpoonup> label_encoder" where
  "example_encoders = map_of [
     (str ''state'', \<lparr>classes = [str ''Karnataka'']\<rparr>),
     (str ''district'', \<lparr>classes = [str ''Gangavathi'', str ''Sindhanur'', str ''Siruguppa'']\<rparr>),
     (str ''crop_name'', \<lparr>classes = [str ''Maize'', str ''Paddy'']\<rparr>),
     (str ''soil_type'', \<lparr>classes = [str ''Black soil'', str ''Red soil'']\<rparr>),
     (str ''season'', \<lparr>classes = [str ''Kharif'', str ''Rabi'']\<rparr>),
     (str ''irrigation_source'', \<lparr>classes = [str ''Borewell'', str ''Canal'']\<rparr>)]"

definition is_code :: "pystr \<times> cell \<Rightarrow> bool" where
  "is_code fc = (case snd fc of Code n \<Rightarrow> True | Text t \<Rightarrow> False)"

definition example_world :: "(nat, rat) world" where
  "example_world =
     \<lparr>load_model = Some 7,
      load_encoders = Some example_encoders,
      model_predict = (\<lambda>m row. if list_all is_code row then Some 2.5 else None),
      round2 = (\<lambda>y. y),
      uniform_real = 0.9,
      uniform_sample = 0.8,
      randint_text = str ''1234'',
      insert_one = (\<lambda>yield_data res. Inr (str ''0b7e''))\<rparr>"

text \<open>A request whose soil type is in no vocabulary.\<close>

definition sandy_request :: "pystr \<rightharpoonup> pystr" where
  "sandy_request =
     [str ''crop_name'' \<mapsto> str ''Paddy'', str ''soil_type'' \<mapsto> str ''Sandy soil'',
      str ''season'' \<mapsto> str ''Kharif'', str ''irrigation_source'' \<mapsto> str ''Canal'',
      str ''state'' \<mapsto> str ''Karnataka'', str ''district'' \<mapsto> str ''Siruguppa'']"

text \<open>The predictor of the examples once the saved files are in memory.\<close>

definition loaded_predictor :: "nat yield_predictor" where
  "loaded_predictor =
     \<lparr>model = Some 7, label_encoders = example_encoders, is_trained_on_real_data = True\<rparr>"

section \<open>Auxiliary facts\<close>

lemma str_eq_iff [simp]: "str a = str b \<longleftrightarrow> a = b"
  unfolding str_def by (simp add: inj_map_eq_map inj_of_char)

lemma str_Nil_iff [simp]: "str cs = [] \<longleftrightarrow> cs = []"
  by (simp add: str_def)

lemma dropWhile_rev_fixed:
  "\<not> P x \<Longrightarrow> dropWhile P (rev (dropWhile P (rev (x # t)))) = rev (dropWhile P (rev (x # t)))"
  by (simp add: dropWhile_append)

lemma strip_strip: "strip (strip s) = strip s"
proof (cases "dropWhile isspace s")
  case Nil
  show ?thesis unfolding strip_def Nil by simp
next
  case (Cons x t)
  then have "\<not> isspace x"
    by (simp add: dropWhile_eq_Cons_conv)
  then have "dropWhile isspace (rev (dropWhile isspace (rev (x # t))))
      = rev (dropWhile isspace (rev (x # t)))"
    by (rule dropWhile_rev_fixed)
  then show ?thesis
    by (simp add: strip_def Cons)
qed

lemma strip_str:
  "strip (str cs) =
     str (rev (dropWhile (\<lambda>c. isspace (of_char c)) (rev (dropWhile (\<lambda>c. isspace (of_char c)) cs))))"
  by (simp add: strip_def str_def dropWhile_map rev_map comp_def)

lemma strip_Nil: "strip [] = []"
  by (simp add: strip_def)

lemma mset_sorted_reverse: "mset (sorted_reverse key xs) = mset xs"
  by (simp add: sorted_reverse_def)

lemma length_sorted_reverse: "length (sorted_reverse key xs) = length xs"
  by (simp add: sorted_reverse_def)

lemma sorted_reverse_Nil_iff: "sorted_reverse key xs = [] \<longleftrightarrow> xs = []"
  using length_sorted_reverse [of key xs] by (metis length_0_conv)

lemma sorted_reverse_descending:
  "sorted_wrt (\<lambda>a b. key b \<le> key a) (sorted_reverse key xs)"
proof -
  have "sorted (map key (sort_key key (rev xs)))"
    by (rule sorted_sort_key)
  then have "sorted_wrt (\<lambda>a b. key a \<le> key b) (sort_key key (rev xs))"
    by (simp add: sorted_map)
  then show ?thesis
    by (simp add: sorted_reverse_def sorted_wrt_rev)
qed

lemma sorted_reverse_stable:
  "filter (\<lambda>y. key y = k) (sorted_reverse key xs) = filter (\<lambda>y. key y = k) xs"
  by (simp add: sorted_reverse_def sort_key_stable flip: rev_filter)

lemma match_loop_filter:
  "match_loop rules d s so ir (a, b, c) =
     (a @ filter (\<lambda>r. is_candidate d s r \<and> in_exact so ir r) rules,
      b @ filter (\<lambda>r. is_candidate d s r \<and> in_soil_only so ir r) rules,
      c @ filter (\<lambda>r. is_candidate d s r \<and> in_residual so r) rules)"
  by (induction rules arbitrary: a b c)
     (auto simp: is_candidate_def in_exact_def in_soil_only_def in_residual_def)

lemma find_filter:
  "List.find P xs = (case filter P xs of [] \<Rightarrow> None | x # rest \<Rightarrow> Some x)"
  by (induction xs) auto

lemma match_rules_buckets:
  "match_rules rules district season soil_type irrigation_source =
     (if exact_bucket rules (strip district) (strip season) (strip soil_type)
           (strip irrigation_source) \<noteq> []
      then exact_bucket rules (strip district) (strip season) (strip soil_type)
           (strip irrigation_source)
      else if soil_only_bucket rules (strip district) (strip season) (strip soil_type)
           (strip irrigation_source) \<noteq> []
      then soil_only_bucket rules (strip district) (strip season) (strip soil_type)
           (strip irrigation_source)
      else residual_bucket rules (strip district) (strip season) (strip soil_type))"
  by (simp add: match_rules_def match_loop_filter exact_bucket_def soil_only_bucket_def
      residual_bucket_def candidates_def conj_commute)

lemma winning_rule_match:
  "winning_rule rules (strip district) (strip season) (strip soil_type) (strip irrigation_source)
     = (case match_rules rules district season soil_type irrigation_source of
          [] \<Rightarrow> None | r # others \<Rightarrow> Some r)"
  by (simp add: winning_rule_def find_filter match_rules_def match_loop_filter
      split: list.splits)

lemma first_label_fallback: "first_label fallback_crops = Inr (str ''Paddy'')"
  by (simp add: first_label_def fallback_crops_def)

lemma to_predictions_fallback:
  "\<lparr>recommended_crop = str ''Paddy'', top_predictions = to_predictions fallback_crops\<rparr>
     = fallback_result"
  by (simp add: to_predictions_def fallback_crops_def fallback_result_def)

lemma recommend_over_Nil:
  "match_rules rules (get_str input_data (str ''district'')) (get_str input_data (str ''season''))
     (get_str input_data (str ''soil_type'')) (get_str input_data (str ''irrigation_source'')) = []
   \<Longrightarrow> recommend_over rules input_data = Inr fallback_result"
  by (simp add: recommend_over_def first_label_fallback to_predictions_fallback)

lemma recommend_over_Cons:
  "match_rules rules (get_str input_data (str ''district'')) (get_str input_data (str ''season''))
     (get_str input_data (str ''soil_type'')) (get_str input_data (str ''irrigation_source''))
     = r # others
   \<Longrightarrow> recommend_over rules input_data = answer_of_rule r"
  by (simp add: recommend_over_def answer_of_rule_def first_label_def Let_def
      split: list.splits prod.splits)

lemma recommend_over_winner:
  "recommend_over rules input_data =
     (case winning_rule rules (strip (get_str input_data (str ''district'')))
             (strip (get_str input_data (str ''season'')))
             (strip (get_str input_data (str ''soil_type'')))
             (strip (get_str input_data (str ''irrigation_source''))) of
        None \<Rightarrow> Inr fallback_result
      | Some r \<Rightarrow> answer_of_rule r)"
  by (simp add: winning_rule_match recommend_over_Nil recommend_over_Cons split: list.splits)


lemma recommend_over_query:
  "recommend_over rules q =
     (case winning_rule rules (region_of q) (period_of q) (soil_of q) (water_of q) of
        None \<Rightarrow> Inr fallback_result
      | Some r \<Rightarrow> answer_of_rule r)"
  by (simp add: recommend_over_winner region_of_def period_of_def soil_of_def water_of_def)

lemma find_Some_holds: "List.find P xs = Some x \<Longrightarrow> P x \<and> x \<in> set xs"
  by (auto simp: find_Some_iff)

lemma winning_rule_None_iff:
  "winning_rule rules region period soil water = None \<longleftrightarrow> candidates rules region period = []"
  by (auto simp: winning_rule_def candidates_def find_None_iff filter_empty_conv
      in_exact_def in_soil_only_def in_residual_def split: option.splits dest: find_Some_holds)

lemma winning_rule_in_candidates:
  "winning_rule rules region period soil water = Some r \<Longrightarrow>
     r \<in> set (candidates rules region period)"
  by (auto simp: winning_rule_def candidates_def split: option.splits dest: find_Some_holds)

lemma answer_of_rule_Inr:
  "rule_crops r \<noteq> [] \<Longrightarrow>
     \<exists>best rest. sorted_reverse snd (rule_crops r) = best # rest \<and>
       answer_of_rule r = Inr \<lparr>recommended_crop = fst best,
         top_predictions = to_predictions (take 3 (sorted_reverse snd (rule_crops r)))\<rparr>"
  by (cases "sorted_reverse snd (rule_crops r)")
     (simp_all add: sorted_reverse_Nil_iff answer_of_rule_def)

lemma length_to_predictions: "length (to_predictions xs) = length xs"
  by (simp add: to_predictions_def)

lemma sorted_to_predictions:
  "sorted_wrt (\<lambda>a b. snd b \<le> snd a) xs \<Longrightarrow>
     sorted_wrt (\<lambda>a b. score b \<le> score a) (to_predictions xs)"
  by (simp add: to_predictions_def sorted_wrt_map case_prod_unfold)

lemma answer_of_rule_shape:
  assumes "answer_of_rule r = Inr res"
  shows "top_predictions res \<noteq> [] \<and> recommended_crop res = crop (hd (top_predictions res)) \<and>
         sorted_wrt (\<lambda>a b. score b \<le> score a) (top_predictions res)"
proof (cases "sorted_reverse snd (rule_crops r)")
  case Nil
  with assms show ?thesis by (simp add: answer_of_rule_def)
next
  case (Cons best rest)
  with assms have res: "res = \<lparr>recommended_crop = fst best,
      top_predictions = to_predictions (take 3 (sorted_reverse snd (rule_crops r)))\<rparr>"
    by (simp add: answer_of_rule_def)
  have "sorted_wrt (\<lambda>a b. snd b \<le> snd a) (take 3 (sorted_reverse snd (rule_crops r)))"
    by (rule sorted_wrt_take) (rule sorted_reverse_descending)
  then have "sorted_wrt (\<lambda>a b. score b \<le> score a) (top_predictions res)"
    by (simp add: res sorted_to_predictions)
  moreover have "top_predictions res \<noteq> []"
    by (simp add: res Cons to_predictions_def)
  moreover have "recommended_crop res = crop (hd (top_predictions res))"
    by (simp add: res Cons to_predictions_def case_prod_unfold)
  ultimately show ?thesis by simp
qed

lemma fallback_shape:
  "top_predictions fallback_result \<noteq> [] \<and>
   recommended_crop fallback_result = crop (hd (top_predictions fallback_result)) \<and>
   sorted_wrt (\<lambda>a b. score b \<le> score a) (top_predictions fallback_result)"
  by (simp add: fallback_result_def)


lemma matching_rules_buckets:
  "matching_rules rules q =
     (if exact_bucket rules (region_of q) (period_of q) (soil_of q) (water_of q) \<noteq> []
      then exact_bucket rules (region_of q) (period_of q) (soil_of q) (water_of q)
      else if soil_only_bucket rules (region_of q) (period_of q) (soil_of q) (water_of q) \<noteq> []
      then soil_only_bucket rules (region_of q) (period_of q) (soil_of q) (water_of q)
      else residual_bucket rules (region_of q) (period_of q) (soil_of q))"
  unfolding matching_rules_def region_of_def period_of_def soil_of_def water_of_def
  by (rule match_rules_buckets)

lemma three_way_partition:
  "mset (filter (in_exact soil water) xs) + mset (filter (in_soil_only soil water) xs) +
   mset (filter (in_residual soil) xs) = mset xs"
  by (induction xs) (auto simp: in_exact_def in_soil_only_def in_residual_def)

lemma buckets_partition:
  "mset (exact_bucket rules region period soil water) +
   mset (soil_only_bucket rules region period soil water) +
   mset (residual_bucket rules region period soil) = mset (candidates rules region period)"
  unfolding exact_bucket_def soil_only_bucket_def residual_bucket_def
  by (rule three_way_partition)

lemma filter_filter_candidates:
  "filter P (candidates rules region period) = filter (\<lambda>r. is_candidate region period r \<and> P r) rules"
  by (simp add: candidates_def conj_commute)

lemma winning_rule_buckets:
  "winning_rule rules region period soil water =
     (if exact_bucket rules region period soil water \<noteq> []
      then Some (hd (exact_bucket rules region period soil water))
      else if soil_only_bucket rules region period soil water \<noteq> []
      then Some (hd (soil_only_bucket rules region period soil water))
      else if residual_bucket rules region period soil \<noteq> []
      then Some (hd (residual_bucket rules region period soil))
      else None)"
  by (simp add: winning_rule_def find_filter exact_bucket_def soil_only_bucket_def
      residual_bucket_def filter_filter_candidates split: list.splits)

lemma candidates_subset: "set (candidates rules region period) \<subseteq> set rules"
  by (auto simp: candidates_def)

lemma RULES_crops_nonempty: "r \<in> set RULES \<Longrightarrow> rule_crops r \<noteq> []"
  by (auto simp: RULES_def)

lemma RULES_answer_not_fallback: "r \<in> set RULES \<Longrightarrow> answer_of_rule r \<noteq> Inr fallback_result"
  by (auto simp: RULES_def answer_of_rule_def sorted_reverse_def to_predictions_def
      fallback_result_def)

lemma get_str_trim: "get_str (trim q) k = strip (get_str q k)"
  by (simp add: get_str_def trim_def strip_Nil split: option.splits)

lemma state_not_consulted: "recommend_over rules (q(str ''state'' \<mapsto> v)) = recommend_over rules q"
  by (simp add: recommend_over_def get_str_def)


lemma recommend_over_matching:
  "recommend_over rules q =
     (case matching_rules rules q of [] \<Rightarrow> Inr fallback_result | r # others \<Rightarrow> answer_of_rule r)"
  by (simp add: matching_rules_def recommend_over_Nil recommend_over_Cons split: list.splits)

lemma matching_rules_Nil_iff:
  "matching_rules rules q = [] \<longleftrightarrow> candidates rules (region_of q) (period_of q) = []"
proof -
  have "winning_rule rules (region_of q) (period_of q) (soil_of q) (water_of q)
      = (case matching_rules rules q of [] \<Rightarrow> None | r # others \<Rightarrow> Some r)"
    unfolding matching_rules_def region_of_def period_of_def soil_of_def water_of_def
    by (rule winning_rule_match)
  then show ?thesis
    using winning_rule_None_iff [of rules "region_of q" "period_of q" "soil_of q" "water_of q"]
    by (simp split: list.splits)
qed

lemma RULES_crops_length: "r \<in> set RULES \<Longrightarrow> 3 \<le> length (rule_crops r)"
  by (auto simp: RULES_def)

lemma answer_of_rule_top:
  assumes "rule_crops r \<noteq> []"
  shows "\<exists>res. answer_of_rule r = Inr res \<and>
           top_predictions res = to_predictions (take 3 (sorted_reverse snd (rule_crops r))) \<and>
           length (top_predictions res) = min 3 (length (rule_crops r))"
proof -
  from answer_of_rule_Inr [OF assms]
  have "answer_of_rule r = Inr \<lparr>recommended_crop = fst (hd (sorted_reverse snd (rule_crops r))),
      top_predictions = to_predictions (take 3 (sorted_reverse snd (rule_crops r)))\<rparr>"
    by auto
  then show ?thesis
    by (simp add: length_to_predictions length_sorted_reverse min.commute)
qed

lemma match_loop_explicit:
  "match_loop rules (strip district) (strip season) (strip soil_type) (strip irrigation_source)
     ([], [], []) =
     (filter (\<lambda>x. rule_district x = strip district \<and> rule_season x = strip season \<and>
                 strip soil_type \<in> set (rule_soil_types x) \<and>
                 strip irrigation_source \<in> set (rule_irrigation x)) rules,
      filter (\<lambda>x. rule_district x = strip district \<and> rule_season x = strip season \<and>
                 strip soil_type \<in> set (rule_soil_types x) \<and>
                 strip irrigation_source \<notin> set (rule_irrigation x)) rules,
      filter (\<lambda>x. rule_district x = strip district \<and> rule_season x = strip season \<and>
                 strip soil_type \<notin> set (rule_soil_types x)) rules)"
  by (simp add: match_loop_filter is_candidate_def in_exact_def in_soil_only_def in_residual_def)

lemma soil_mismatch_not_in_buckets:
  "strip soil_type \<notin> set (rule_soil_types r) \<Longrightarrow>
     r \<notin> set (fst (match_loop rules (strip district) (strip season) (strip soil_type)
                     (strip irrigation_source) ([], [], []))) \<and>
     r \<notin> set (fst (snd (match_loop rules (strip district) (strip season) (strip soil_type)
                     (strip irrigation_source) ([], [], []))))"
  by (simp add: match_loop_explicit)

lemma water_mismatch_not_exact:
  "strip irrigation_source \<notin> set (rule_irrigation r) \<Longrightarrow>
     r \<notin> set (fst (match_loop rules (strip district) (strip season) (strip soil_type)
                     (strip irrigation_source) ([], [], [])))"
  by (simp add: match_loop_explicit)

lemma soil_mismatch_loses:
  assumes "strip soil_type \<notin> set (rule_soil_types r)"
    and "x \<in> set rules" and "rule_district x = strip district" and "rule_season x = strip season"
    and "strip soil_type \<in> set (rule_soil_types x)"
  shows "r \<notin> set (match_rules rules district season soil_type irrigation_source)"
proof (cases "strip irrigation_source \<in> set (rule_irrigation x)")
  case True
  with assms have "x \<in> set (fst (match_loop rules (strip district) (strip season)
      (strip soil_type) (strip irrigation_source) ([], [], [])))"
    by (simp add: match_loop_explicit)
  then show ?thesis
    using assms by (auto simp: match_rules_def match_loop_explicit filter_empty_conv)
next
  case False
  with assms have "x \<in> set (fst (snd (match_loop rules (strip district) (strip season)
      (strip soil_type) (strip irrigation_source) ([], [], []))))"
    by (simp add: match_loop_explicit)
  then show ?thesis
    using assms by (auto simp: match_rules_def match_loop_explicit filter_empty_conv)
qed

lemma water_mismatch_loses:
  assumes "strip irrigation_source \<notin> set (rule_irrigation r)"
    and "x \<in> set rules" and "rule_district x = strip district" and "rule_season x = strip season"
    and "strip soil_type \<in> set (rule_soil_types x)"
    and "strip irrigation_source \<in> set (rule_irrigation x)"
  shows "r \<notin> set (match_rules rules district season soil_type irrigation_source)"
proof -
  from assms have "x \<in> set (fst (match_loop rules (strip district) (strip season)
      (strip soil_type) (strip irrigation_source) ([], [], [])))"
    by (simp add: match_loop_explicit)
  then show ?thesis
    using assms by (auto simp: match_rules_def match_loop_explicit filter_empty_conv)
qed

lemmas bucket_eval =
  exact_bucket_def soil_only_bucket_def residual_bucket_def candidates_def is_candidate_def
  in_exact_def in_soil_only_def in_residual_def

lemma query_fields_trim:
  "region_of (trim q) = region_of q" "period_of (trim q) = period_of q"
  "soil_of (trim q) = soil_of q" "water_of (trim q) = water_of q"
  by (simp_all add: region_of_def period_of_def soil_of_def water_of_def get_str_trim strip_strip)

lemma match_rules_exact_keys:
  "r \<in> set (match_rules rules district season soil_type irrigation_source) \<Longrightarrow>
     rule_district r = strip district \<and> rule_season r = strip season"
  by (auto simp: match_rules_buckets bucket_eval split: if_splits)

lemmas recommend_eval =
  recommend_def recommend_over_def get_str_def match_rules_def RULES_def strip_str isspace_def
  sorted_reverse_def first_label_def to_predictions_def crop_model_input_def

lemmas query_eval =
  region_of_def period_of_def soil_of_def water_of_def get_str_def strip_str isspace_def
  crop_model_input_def


section \<open>Properties of the crop recommender\<close>

text \<open>
  Claim C10. Every result that \<open>recommend\<close> returns, from a matched rule or from the
  fallback, has at least one prediction, its \<open>recommended_crop\<close> is the crop of the first
  entry of \<open>top_predictions\<close>, and the scores of the entries never increase along the
  list. It holds for the table \<open>RULES\<close> and for every other table.
\<close>

theorem best_first_descending:
  "(recommend_over rules q = Inr res \<longrightarrow>
      top_predictions res \<noteq> [] \<and> recommended_crop res = crop (hd (top_predictions res)) \<and>
      sorted_wrt (\<lambda>a b. score b \<le> score a) (top_predictions res)) \<and>
   (recommend q = Inr res \<longrightarrow>
      top_predictions res \<noteq> [] \<and> recommended_crop res = crop (hd (top_predictions res)) \<and>
      sorted_wrt (\<lambda>a b. score b \<le> score a) (top_predictions res))"
proof -
  have "top_predictions res \<noteq> [] \<and> recommended_crop res = crop (hd (top_predictions res)) \<and>
      sorted_wrt (\<lambda>a b. score b \<le> score a) (top_predictions res)"
    if "recommend_over rs q = Inr res" for rs
  proof (cases "winning_rule rs (region_of q) (period_of q) (soil_of q) (water_of q)")
    case None
    with that have "res = fallback_result"
      by (simp add: recommend_over_query)
    then show ?thesis using fallback_shape by simp
  next
    case (Some r)
    with that have "answer_of_rule r = Inr res"
      by (simp add: recommend_over_query)
    then show ?thesis by (rule answer_of_rule_shape)
  qed
  then show ?thesis by (simp add: recommend_def)
qed

theorem best_first_descending_witness:
  "recommend (crop_model_input (str ''Karnataka'') (str ''Gangavathi'') (str ''Black soil'')
       (str ''Kharif'') (str ''Canal''))
     = Inr \<lparr>recommended_crop = str ''Paddy'',
            top_predictions = [\<lparr>crop = str ''Paddy'', score = 0.5\<rparr>,
                               \<lparr>crop = str ''Groundnut'', score = 0.2\<rparr>,
                               \<lparr>crop = str ''Maize'', score = 0.15\<rparr>]\<rparr> \<and>
   recommended_crop \<lparr>recommended_crop = str ''Paddy'',
            top_predictions = [\<lparr>crop = str ''Paddy'', score = 0.5\<rparr>,
                               \<lparr>crop = str ''Groundnut'', score = 0.2\<rparr>,
                               \<lparr>crop = str ''Maize'', score = 0.15\<rparr>]\<rparr>
     = crop (hd (top_predictions \<lparr>recommended_crop = str ''Paddy'',
            top_predictions = [\<lparr>crop = str ''Paddy'', score = 0.5\<rparr>,
                               \<lparr>crop = str ''Groundnut'', score = 0.2\<rparr>,
                               \<lparr>crop = str ''Maize'', score = 0.15\<rparr>]\<rparr>)) \<and>
   sorted_wrt (\<lambda>a b. score b \<le> score a)
     (top_predictions \<lparr>recommended_crop = str ''Paddy'',
            top_predictions = [\<lparr>crop = str ''Paddy'', score = 0.5\<rparr>,
                               \<lparr>crop = str ''Groundnut'', score = 0.2\<rparr>,
                               \<lparr>crop = str ''Maize'', score = 0.15\<rparr>]\<rparr>)"
proof -
  have h: "recommend (crop_model_input (str ''Karnataka'') (str ''Gangavathi'') (str ''Black soil'')
       (str ''Kharif'') (str ''Canal''))
     = Inr \<lparr>recommended_crop = str ''Paddy'',
            top_predictions = [\<lparr>crop = str ''Paddy'', score = 0.5\<rparr>,
                               \<lparr>crop = str ''Groundnut'', score = 0.2\<rparr>,
                               \<lparr>crop = str ''Maize'', score = 0.15\<rparr>]\<rparr>"
    by (simp add: recommend_eval)
  from best_first_descending [THEN conjunct2, rule_format, OF h] h show ?thesis
    by blast
qed


text \<open>
  Claim C6. The query Siruguppa, Kharif, Red soil, Canal is answered with Paddy and the
  predictions Paddy 0.55, Maize 0.25, Cotton 0.12 in that order, through the exact bucket.
  With Drip as the water source the exact bucket is empty, the soil-only bucket holds the
  same rule (the first of the table) and the answer is the one of the Canal query.
\<close>

theorem siruguppa_kharif_scenario:
  "recommend (crop_model_input (str ''Karnataka'') (str ''Siruguppa'') (str ''Red soil'')
       (str ''Kharif'') (str ''Canal''))
     = Inr \<lparr>recommended_crop = str ''Paddy'',
            top_predictions = [\<lparr>crop = str ''Paddy'', score = 0.55\<rparr>,
                               \<lparr>crop = str ''Maize'', score = 0.25\<rparr>,
                               \<lparr>crop = str ''Cotton'', score = 0.12\<rparr>]\<rparr> \<and>
   exact_bucket RULES (str ''Siruguppa'') (str ''Kharif'') (str ''Red soil'') (str ''Canal'')
     = [RULES ! 0] \<and>
   exact_bucket RULES (str ''Siruguppa'') (str ''Kharif'') (str ''Red soil'') (str ''Drip'') = [] \<and>
   soil_only_bucket RULES (str ''Siruguppa'') (str ''Kharif'') (str ''Red soil'') (str ''Drip'')
     = [RULES ! 0] \<and>
   match_rules RULES (str ''Siruguppa'') (str ''Kharif'') (str ''Red soil'') (str ''Drip'')
     = [RULES ! 0] \<and>
   recommend (crop_model_input (str ''Karnataka'') (str ''Siruguppa'') (str ''Red soil'')
       (str ''Kharif'') (str ''Drip''))
     = recommend (crop_model_input (str ''Karnataka'') (str ''Siruguppa'') (str ''Red soil'')
       (str ''Kharif'') (str ''Canal''))"
  by (simp add: recommend_eval exact_bucket_def soil_only_bucket_def candidates_def
      is_candidate_def in_exact_def in_soil_only_def)

text \<open>
  Claim C1. When no rule of the table has the trimmed district and the trimmed season of
  the query, \<open>recommend\<close> returns the generic fallback: Paddy 0.40, Maize 0.35 and
  Chickpea 0.25 in that order, with Paddy as the recommended crop. The fallback is one
  constant, the same for every such query and for every table.
\<close>

theorem fallback_when_no_candidate:
  "(candidates rules (region_of q) (period_of q) = [] \<longrightarrow>
      recommend_over rules q = Inr fallback_result) \<and>
   (candidates RULES (region_of q) (period_of q) = [] \<longrightarrow> recommend q = Inr fallback_result) \<and>
   map crop (top_predictions fallback_result) = [str ''Paddy'', str ''Maize'', str ''Chickpea''] \<and>
   map score (top_predictions fallback_result) = [0.40, 0.35, 0.25] \<and>
   recommended_crop fallback_result = crop (hd (top_predictions fallback_result))"
proof -
  have "recommend_over rs q = Inr fallback_result"
    if "candidates rs (region_of q) (period_of q) = []" for rs
    using that by (simp add: recommend_over_query winning_rule_None_iff [THEN iffD2])
  then show ?thesis
    by (simp add: recommend_def fallback_result_def)
qed

theorem fallback_when_no_candidate_witness:
  "candidates RULES
     (region_of (crop_model_input (str ''Karnataka'') (str ''Unknown Place'') (str ''Red soil'')
        (str ''Kharif'') (str ''Canal'')))
     (period_of (crop_model_input (str ''Karnataka'') (str ''Unknown Place'') (str ''Red soil'')
        (str ''Kharif'') (str ''Canal''))) = [] \<and>
   recommend (crop_model_input (str ''Karnataka'') (str ''Unknown Place'') (str ''Red soil'')
        (str ''Kharif'') (str ''Canal'')) = Inr fallback_result"
proof -
  have h: "candidates RULES
     (region_of (crop_model_input (str ''Karnataka'') (str ''Unknown Place'') (str ''Red soil'')
        (str ''Kharif'') (str ''Canal'')))
     (period_of (crop_model_input (str ''Karnataka'') (str ''Unknown Place'') (str ''Red soil'')
        (str ''Kharif'') (str ''Canal''))) = []"
    by (simp add: candidates_def is_candidate_def RULES_def query_eval)
  from fallback_when_no_candidate [THEN conjunct2, THEN conjunct1, rule_format, OF h] h
  show ?thesis by blast
qed

text \<open>
  Claim C5. On a dictionary of strings \<open>recommend\<close> never raises: it returns a result
  with at least one prediction, which is the fallback or the answer computed from a rule
  of \<open>RULES\<close>.
\<close>

theorem recommend_never_raises:
  "\<exists>res. recommend q = Inr res \<and> top_predictions res \<noteq> [] \<and>
     (res = fallback_result \<or> (\<exists>r. r \<in> set RULES \<and> answer_of_rule r = Inr res))"
proof (cases "winning_rule RULES (region_of q) (period_of q) (soil_of q) (water_of q)")
  case None
  then have "recommend q = Inr fallback_result"
    by (simp add: recommend_def recommend_over_query)
  then show ?thesis
    using fallback_shape by simp
next
  case (Some r)
  then have r: "r \<in> set RULES"
    using winning_rule_in_candidates candidates_subset by blast
  then have "rule_crops r \<noteq> []"
    by (rule RULES_crops_nonempty)
  then obtain res where res: "answer_of_rule r = Inr res"
    using answer_of_rule_Inr by blast
  then have "top_predictions res \<noteq> []"
    using answer_of_rule_shape by blast
  moreover have "recommend q = Inr res"
    using Some res by (simp add: recommend_def recommend_over_query)
  ultimately show ?thesis
    using r res by blast
qed

text \<open>
  Claim C4. The predictions computed from the winning rule are its options sorted
  descending by weight and cut to the first three. The sort is a permutation of the
  options, descending, and stable: for every weight, the options of that weight stand in
  their original order. So four options give three predictions and one or two options
  give as many. For a table other than \<open>RULES\<close> the rule must have an option: on a rule
  with none the program raises \<open>IndexError\<close>. Every rule of \<open>RULES\<close> has three or four.
\<close>

theorem top_three_stable_descending:
  "(winning_rule rules (region_of q) (period_of q) (soil_of q) (water_of q) = Some r \<and>
      rule_crops r \<noteq> [] \<longrightarrow>
      (\<exists>res. recommend_over rules q = Inr res \<and>
         top_predictions res = to_predictions (take 3 (sorted_reverse snd (rule_crops r))) \<and>
         length (top_predictions res) = min 3 (length (rule_crops r)))) \<and>
   (winning_rule RULES (region_of q) (period_of q) (soil_of q) (water_of q) = Some r \<longrightarrow>
      (\<exists>res. recommend q = Inr res \<and>
         top_predictions res = to_predictions (take 3 (sorted_reverse snd (rule_crops r))) \<and>
         length (top_predictions res) = 3)) \<and>
   mset (sorted_reverse snd (rule_crops r)) = mset (rule_crops r) \<and>
   sorted_wrt (\<lambda>a b. snd b \<le> snd a) (sorted_reverse snd (rule_crops r)) \<and>
   (\<forall>w. filter (\<lambda>p. snd p = w) (sorted_reverse snd (rule_crops r))
        = filter (\<lambda>p. snd p = w) (rule_crops r))"
proof -
  have general: "\<exists>res. recommend_over rs q = Inr res \<and>
      top_predictions res = to_predictions (take 3 (sorted_reverse snd (rule_crops r))) \<and>
      length (top_predictions res) = min 3 (length (rule_crops r))"
    if "winning_rule rs (region_of q) (period_of q) (soil_of q) (water_of q) = Some r"
      and "rule_crops r \<noteq> []" for rs
    using that answer_of_rule_top [of r] by (simp add: recommend_over_query)
  have table: "\<exists>res. recommend q = Inr res \<and>
      top_predictions res = to_predictions (take 3 (sorted_reverse snd (rule_crops r))) \<and>
      length (top_predictions res) = 3"
    if w: "winning_rule RULES (region_of q) (period_of q) (soil_of q) (water_of q) = Some r"
  proof -
    from w have r: "r \<in> set RULES"
      using winning_rule_in_candidates candidates_subset by blast
    then have "rule_crops r \<noteq> []"
      by (rule RULES_crops_nonempty)
    from general [OF w this] RULES_crops_length [OF r] show ?thesis
      by (simp add: recommend_def)
  qed
  show ?thesis
    using general table mset_sorted_reverse [of snd "rule_crops r"]
      sorted_reverse_descending [of snd "rule_crops r"]
      sorted_reverse_stable [of snd _ "rule_crops r"]
    by blast
qed

theorem top_three_stable_descending_witness:
  "winning_rule two_rule_table (region_of drip_query) (period_of drip_query)
      (soil_of drip_query) (water_of drip_query) = Some (two_rule_table ! 1) \<and>
   rule_crops (two_rule_table ! 1)
     = [(str ''Cotton'', 0.2), (str ''Chilli'', 0.5), (str ''Groundnut'', 0.2), (str ''Maize'', 0.5)] \<and>
   to_predictions (take 3 (sorted_reverse snd (rule_crops (two_rule_table ! 1))))
     = [\<lparr>crop = str ''Chilli'', score = 0.5\<rparr>, \<lparr>crop = str ''Maize'', score = 0.5\<rparr>,
        \<lparr>crop = str ''Cotton'', score = 0.2\<rparr>] \<and>
   (\<exists>res. recommend_over two_rule_table drip_query = Inr res \<and>
      top_predictions res
        = to_predictions (take 3 (sorted_reverse snd (rule_crops (two_rule_table ! 1)))) \<and>
      length (top_predictions res) = min 3 (length (rule_crops (two_rule_table ! 1)))) \<and>
   winning_rule RULES (region_of gangavathi_query) (period_of gangavathi_query)
      (soil_of gangavathi_query) (water_of gangavathi_query) = Some (RULES ! 6) \<and>
   (\<exists>res. recommend gangavathi_query = Inr res \<and>
      top_predictions res = to_predictions (take 3 (sorted_reverse snd (rule_crops (RULES ! 6)))) \<and>
      length (top_predictions res) = 3)"
proof -
  have w: "winning_rule two_rule_table (region_of drip_query) (period_of drip_query)
      (soil_of drip_query) (water_of drip_query) = Some (two_rule_table ! 1)"
    by (simp add: winning_rule_def bucket_eval query_eval drip_query_def two_rule_table_def)
  have c: "rule_crops (two_rule_table ! 1)
     = [(str ''Cotton'', 0.2), (str ''Chilli'', 0.5), (str ''Groundnut'', 0.2), (str ''Maize'', 0.5)]"
    by (simp add: two_rule_table_def)
  have t: "to_predictions (take 3 (sorted_reverse snd (rule_crops (two_rule_table ! 1))))
     = [\<lparr>crop = str ''Chilli'', score = 0.5\<rparr>, \<lparr>crop = str ''Maize'', score = 0.5\<rparr>,
        \<lparr>crop = str ''Cotton'', score = 0.2\<rparr>]"
    unfolding c by (simp add: sorted_reverse_def to_predictions_def)
  have n: "rule_crops (two_rule_table ! 1) \<noteq> []"
    unfolding c by simp
  have g: "winning_rule RULES (region_of gangavathi_query) (period_of gangavathi_query)
      (soil_of gangavathi_query) (water_of gangavathi_query) = Some (RULES ! 6)"
    by (simp add: winning_rule_def bucket_eval query_eval gangavathi_query_def RULES_def)
  from top_three_stable_descending [of two_rule_table drip_query "two_rule_table ! 1",
      THEN conjunct1, rule_format, OF conjI, OF w n]
    top_three_stable_descending [of _ gangavathi_query "RULES ! 6",
      THEN conjunct2, THEN conjunct1, rule_format, OF g]
    w c t g
  show ?thesis by blast
qed

text \<open>
  Claim C2. The list that \<open>_match_rules\<close> returns is the first non-empty one of the exact,
  the soil-only and the residual bucket of the candidate set, and the three buckets
  partition the candidates. The rule that \<open>recommend\<close> answers from is the first rule of
  the table, in its order, that lies in that bucket. One rule alone decides the answer:
  rules are not merged. In particular, when some rule matches exactly, the winning rule
  is an exact match, also when a rule that matches on the soil only comes earlier.
\<close>

theorem first_rule_of_best_bucket:
  "matching_rules rules q =
     (if exact_bucket rules (region_of q) (period_of q) (soil_of q) (water_of q) \<noteq> []
      then exact_bucket rules (region_of q) (period_of q) (soil_of q) (water_of q)
      else if soil_only_bucket rules (region_of q) (period_of q) (soil_of q) (water_of q) \<noteq> []
      then soil_only_bucket rules (region_of q) (period_of q) (soil_of q) (water_of q)
      else residual_bucket rules (region_of q) (period_of q) (soil_of q)) \<and>
   mset (exact_bucket rules (region_of q) (period_of q) (soil_of q) (water_of q)) +
   mset (soil_only_bucket rules (region_of q) (period_of q) (soil_of q) (water_of q)) +
   mset (residual_bucket rules (region_of q) (period_of q) (soil_of q))
     = mset (candidates rules (region_of q) (period_of q)) \<and>
   winning_rule rules (region_of q) (period_of q) (soil_of q) (water_of q) =
     (case matching_rules rules q of [] \<Rightarrow> None | r # others \<Rightarrow> Some r) \<and>
   recommend_over rules q =
     (case winning_rule rules (region_of q) (period_of q) (soil_of q) (water_of q) of
        None \<Rightarrow> Inr fallback_result
      | Some r \<Rightarrow> answer_of_rule r) \<and>
   (exact_bucket rules (region_of q) (period_of q) (soil_of q) (water_of q) \<noteq> [] \<longrightarrow>
      (\<exists>r. winning_rule rules (region_of q) (period_of q) (soil_of q) (water_of q) = Some r \<and>
           is_candidate (region_of q) (period_of q) r \<and>
           in_exact (soil_of q) (water_of q) r \<and>
           recommend_over rules q = answer_of_rule r))"
proof -
  let ?exact = "exact_bucket rules (region_of q) (period_of q) (soil_of q) (water_of q)"
  let ?win = "winning_rule rules (region_of q) (period_of q) (soil_of q) (water_of q)"
  have win: "?win = (case matching_rules rules q of [] \<Rightarrow> None | r # others \<Rightarrow> Some r)"
    unfolding matching_rules_def region_of_def period_of_def soil_of_def water_of_def
    by (rule winning_rule_match)
  have particular: "\<exists>r. ?win = Some r \<and> is_candidate (region_of q) (period_of q) r \<and>
      in_exact (soil_of q) (water_of q) r \<and> recommend_over rules q = answer_of_rule r"
    if ne: "?exact \<noteq> []"
  proof -
    from ne have w: "?win = Some (hd ?exact)"
      by (simp add: winning_rule_buckets)
    from ne have "hd ?exact \<in> set ?exact"
      by simp
    then have "is_candidate (region_of q) (period_of q) (hd ?exact) \<and>
        in_exact (soil_of q) (water_of q) (hd ?exact)"
      unfolding exact_bucket_def candidates_def by simp
    moreover have "recommend_over rules q = answer_of_rule (hd ?exact)"
      by (simp add: recommend_over_query w)
    ultimately show ?thesis using w by blast
  qed
  show ?thesis
    using matching_rules_buckets [of rules q]
      buckets_partition [of rules "region_of q" "period_of q" "soil_of q" "water_of q"]
      win recommend_over_query [of rules q] particular
    by blast
qed


theorem first_rule_of_best_bucket_witness:
  "soil_only_bucket two_rule_table (region_of drip_query) (period_of drip_query)
      (soil_of drip_query) (water_of drip_query) = [two_rule_table ! 0] \<and>
   exact_bucket two_rule_table (region_of drip_query) (period_of drip_query)
      (soil_of drip_query) (water_of drip_query) = [two_rule_table ! 1] \<and>
   (\<exists>r. winning_rule two_rule_table (region_of drip_query) (period_of drip_query)
           (soil_of drip_query) (water_of drip_query) = Some r \<and>
        is_candidate (region_of drip_query) (period_of drip_query) r \<and>
        in_exact (soil_of drip_query) (water_of drip_query) r \<and>
        recommend_over two_rule_table drip_query = answer_of_rule r)"
proof -
  have s: "soil_only_bucket two_rule_table (region_of drip_query) (period_of drip_query)
      (soil_of drip_query) (water_of drip_query) = [two_rule_table ! 0]"
    by (simp add: bucket_eval query_eval drip_query_def two_rule_table_def)
  have e: "exact_bucket two_rule_table (region_of drip_query) (period_of drip_query)
      (soil_of drip_query) (water_of drip_query) = [two_rule_table ! 1]"
    by (simp add: bucket_eval query_eval drip_query_def two_rule_table_def)
  then have ne: "exact_bucket two_rule_table (region_of drip_query) (period_of drip_query)
      (soil_of drip_query) (water_of drip_query) \<noteq> []"
    by simp
  from first_rule_of_best_bucket [of two_rule_table drip_query,
      THEN conjunct2, THEN conjunct2, THEN conjunct2, THEN conjunct2, rule_format, OF ne] s e
  show ?thesis by blast
qed

text \<open>
  Claim C3. When some rule has the district and season of the query but the soil type of
  the query is among the accepted soils of none of them, \<open>_match_rules\<close> returns the
  residual bucket, which is the whole candidate set, and \<open>recommend\<close> answers from the
  first rule of the table with that district and season. The fallback branch is taken
  exactly when there is no candidate, and on \<open>RULES\<close> the fallback value is returned
  exactly then.
\<close>

theorem residual_before_fallback:
  "(List.find (is_candidate (region_of q) (period_of q)) rules = Some r \<and>
    (\<forall>c. c \<in> set (candidates rules (region_of q) (period_of q)) \<longrightarrow>
         soil_of q \<notin> set (rule_soil_types c)) \<longrightarrow>
      matching_rules rules q = residual_bucket rules (region_of q) (period_of q) (soil_of q) \<and>
      matching_rules rules q = candidates rules (region_of q) (period_of q) \<and>
      matching_rules rules q \<noteq> [] \<and> hd (matching_rules rules q) = r \<and>
      recommend_over rules q = answer_of_rule r) \<and>
   (matching_rules rules q = [] \<longleftrightarrow> candidates rules (region_of q) (period_of q) = []) \<and>
   (recommend q = Inr fallback_result \<longleftrightarrow> candidates RULES (region_of q) (period_of q) = [])"
proof -
  let ?cands = "candidates rules (region_of q) (period_of q)"
  have residual: "matching_rules rules q = residual_bucket rules (region_of q) (period_of q) (soil_of q) \<and>
      matching_rules rules q = ?cands \<and> matching_rules rules q \<noteq> [] \<and>
      hd (matching_rules rules q) = r \<and> recommend_over rules q = answer_of_rule r"
    if f: "List.find (is_candidate (region_of q) (period_of q)) rules = Some r"
      and no: "\<forall>c. c \<in> set ?cands \<longrightarrow> soil_of q \<notin> set (rule_soil_types c)"
  proof -
    from f obtain rest where c: "?cands = r # rest"
      by (auto simp: find_filter candidates_def split: list.splits)
    from no have e: "exact_bucket rules (region_of q) (period_of q) (soil_of q) (water_of q) = []"
      by (simp add: exact_bucket_def in_exact_def filter_empty_conv)
    from no have s: "soil_only_bucket rules (region_of q) (period_of q) (soil_of q) (water_of q) = []"
      by (simp add: soil_only_bucket_def in_soil_only_def filter_empty_conv)
    from no have x: "residual_bucket rules (region_of q) (period_of q) (soil_of q) = ?cands"
      by (simp add: residual_bucket_def in_residual_def filter_id_conv)
    have m: "matching_rules rules q = ?cands"
      by (simp add: matching_rules_buckets e s x)
    then have "recommend_over rules q = answer_of_rule r"
      by (simp add: recommend_over_matching c)
    with m x c show ?thesis by simp
  qed
  have only: "candidates RULES (region_of q) (period_of q) = []"
    if fb: "recommend q = Inr fallback_result"
  proof (rule ccontr)
    assume "candidates RULES (region_of q) (period_of q) \<noteq> []"
    then obtain r where w: "winning_rule RULES (region_of q) (period_of q) (soil_of q) (water_of q)
        = Some r"
      using winning_rule_None_iff [of RULES "region_of q" "period_of q" "soil_of q" "water_of q"]
      by auto
    then have "r \<in> set RULES"
      using winning_rule_in_candidates candidates_subset by blast
    then have "answer_of_rule r \<noteq> Inr fallback_result"
      by (rule RULES_answer_not_fallback)
    with fb w show False
      by (simp add: recommend_def recommend_over_query)
  qed
  have "candidates RULES (region_of q) (period_of q) = [] \<Longrightarrow> recommend q = Inr fallback_result"
    by (simp add: recommend_def recommend_over_query winning_rule_None_iff [THEN iffD2])
  with only residual matching_rules_Nil_iff [of rules q] show ?thesis
    by blast
qed

theorem residual_before_fallback_witness:
  "List.find (is_candidate (region_of red_soil_rabi_query) (period_of red_soil_rabi_query)) RULES
     = Some (RULES ! 10) \<and>
   candidates RULES (region_of red_soil_rabi_query) (period_of red_soil_rabi_query)
     = [RULES ! 10] \<and>
   soil_of red_soil_rabi_query \<notin> set (rule_soil_types (RULES ! 10)) \<and>
   matching_rules RULES red_soil_rabi_query \<noteq> [] \<and>
   hd (matching_rules RULES red_soil_rabi_query) = RULES ! 10 \<and>
   recommend_over RULES red_soil_rabi_query = answer_of_rule (RULES ! 10) \<and>
   answer_of_rule (RULES ! 10)
     = Inr \<lparr>recommended_crop = str ''Wheat'',
            top_predictions = [\<lparr>crop = str ''Wheat'', score = 0.4\<rparr>,
                               \<lparr>crop = str ''Chickpea'', score = 0.35\<rparr>,
                               \<lparr>crop = str ''Linseed'', score = 0.25\<rparr>]\<rparr>"
proof -
  have f: "List.find (is_candidate (region_of red_soil_rabi_query) (period_of red_soil_rabi_query))
      RULES = Some (RULES ! 10)"
    by (simp add: is_candidate_def query_eval red_soil_rabi_query_def RULES_def)
  have c: "candidates RULES (region_of red_soil_rabi_query) (period_of red_soil_rabi_query)
      = [RULES ! 10]"
    by (simp add: candidates_def is_candidate_def query_eval red_soil_rabi_query_def RULES_def)
  have s: "soil_of red_soil_rabi_query \<notin> set (rule_soil_types (RULES ! 10))"
    by (simp add: query_eval red_soil_rabi_query_def RULES_def)
  have no: "\<forall>c. c \<in> set (candidates RULES (region_of red_soil_rabi_query)
      (period_of red_soil_rabi_query)) \<longrightarrow> soil_of red_soil_rabi_query \<notin> set (rule_soil_types c)"
    unfolding c using s by simp
  have a: "answer_of_rule (RULES ! 10)
     = Inr \<lparr>recommended_crop = str ''Wheat'',
            top_predictions = [\<lparr>crop = str ''Wheat'', score = 0.4\<rparr>,
                               \<lparr>crop = str ''Chickpea'', score = 0.35\<rparr>,
                               \<lparr>crop = str ''Linseed'', score = 0.25\<rparr>]\<rparr>"
    by (simp add: answer_of_rule_def RULES_def sorted_reverse_def to_predictions_def)
  from residual_before_fallback [of red_soil_rabi_query RULES "RULES ! 10",
      THEN conjunct1, rule_format, OF conjI, OF f no] f c s a
  show ?thesis by blast
qed

text \<open>
  Claim C7. White space at the ends of the values of a query does not matter:
  \<open>recommend\<close> gives the same on a query and on the query with every value stripped, and
  on any two queries whose district, season, soil type and water source agree after
  stripping. Beyond that every comparison is equality of the code points, on all four
  fields. A rule is among the matches only if its district and season are the stripped
  values themselves (\<open>siruguppa\<close> gets the fallback, \<open>Siruguppa\<close> does not). The three
  lists that the loop of \<open>_match_rules\<close> builds are the rules of that district and season
  whose accepted soils and water sources contain the stripped soil type and water source
  themselves: a rule that lists a soil type differing from the query's, be it in letter
  case only, is in neither the exact nor the soil-only list, a rule that lists no water
  source equal to the query's is not in the exact list, and such a rule is not returned
  when another rule fits. On a table with two rules for one district and season,
  \<open>red soil\<close> for \<open>Red soil\<close> and \<open>drip\<close> for \<open>Drip\<close> each change the answer; on \<open>RULES\<close> they
  change the list the rule is put in.
\<close>

theorem trim_invariant_case_sensitive:
  "recommend (trim q) = recommend q \<and>
   recommend_over rules (trim q) = recommend_over rules q \<and>
   ((\<forall>k. k \<in> set query_keys \<longrightarrow> strip (get_str a k) = strip (get_str b k)) \<longrightarrow>
      recommend_over rules a = recommend_over rules b \<and> recommend a = recommend b) \<and>
   (r \<in> set (match_rules rules district season soil_type irrigation_source) \<longrightarrow>
      rule_district r = strip district \<and> rule_season r = strip season) \<and>
   (strip district \<noteq> rule_district r \<longrightarrow>
      r \<notin> set (match_rules rules district season soil_type irrigation_source)) \<and>
   recommend (crop_model_input (str ''Karnataka'') (str ''siruguppa'') (str ''Red soil'')
       (str ''Kharif'') (str ''Canal'')) = Inr fallback_result \<and>
   recommend (crop_model_input (str ''Karnataka'') (str ''Siruguppa'') (str ''Red soil'')
       (str ''Kharif'') (str ''Canal'')) \<noteq> Inr fallback_result \<and>
   match_loop rules (strip district) (strip season) (strip soil_type) (strip irrigation_source)
     ([], [], []) =
     (filter (\<lambda>x. rule_district x = strip district \<and> rule_season x = strip season \<and>
                 strip soil_type \<in> set (rule_soil_types x) \<and>
                 strip irrigation_source \<in> set (rule_irrigation x)) rules,
      filter (\<lambda>x. rule_district x = strip district \<and> rule_season x = strip season \<and>
                 strip soil_type \<in> set (rule_soil_types x) \<and>
                 strip irrigation_source \<notin> set (rule_irrigation x)) rules,
      filter (\<lambda>x. rule_district x = strip district \<and> rule_season x = strip season \<and>
                 strip soil_type \<notin> set (rule_soil_types x)) rules) \<and>
   (strip soil_type \<notin> set (rule_soil_types r) \<longrightarrow>
      r \<notin> set (fst (match_loop rules (strip district) (strip season) (strip soil_type)
                      (strip irrigation_source) ([], [], []))) \<and>
      r \<notin> set (fst (snd (match_loop rules (strip district) (strip season) (strip soil_type)
                      (strip irrigation_source) ([], [], []))))) \<and>
   (strip irrigation_source \<notin> set (rule_irrigation r) \<longrightarrow>
      r \<notin> set (fst (match_loop rules (strip district) (strip season) (strip soil_type)
                      (strip irrigation_source) ([], [], [])))) \<and>
   (strip soil_type \<notin> set (rule_soil_types r) \<and> x \<in> set rules \<and>
    rule_district x = strip district \<and> rule_season x = strip season \<and>
    strip soil_type \<in> set (rule_soil_types x) \<longrightarrow>
      r \<notin> set (match_rules rules district season soil_type irrigation_source)) \<and>
   (strip irrigation_source \<notin> set (rule_irrigation r) \<and> x \<in> set rules \<and>
    rule_district x = strip district \<and> rule_season x = strip season \<and>
    strip soil_type \<in> set (rule_soil_types x) \<and>
    strip irrigation_source \<in> set (rule_irrigation x) \<longrightarrow>
      r \<notin> set (match_rules rules district season soil_type irrigation_source)) \<and>
   recommend_over two_rule_table (crop_model_input (str ''Karnataka'') (str ''Siruguppa'')
       (str ''Red soil'') (str ''Kharif'') (str ''Drip''))
     = Inr \<lparr>recommended_crop = str ''Chilli'',
            top_predictions = [\<lparr>crop = str ''Chilli'', score = 0.5\<rparr>,
                               \<lparr>crop = str ''Maize'', score = 0.5\<rparr>,
                               \<lparr>crop = str ''Cotton'', score = 0.2\<rparr>]\<rparr> \<and>
   recommend_over two_rule_table (crop_model_input (str ''Karnataka'') (str ''Siruguppa'')
       (str ''red soil'') (str ''Kharif'') (str ''Drip''))
     = Inr \<lparr>recommended_crop = str ''Paddy'',
            top_predictions = [\<lparr>crop = str ''Paddy'', score = 0.55\<rparr>,
                               \<lparr>crop = str ''Maize'', score = 0.25\<rparr>]\<rparr> \<and>
   recommend_over two_rule_table (crop_model_input (str ''Karnataka'') (str ''Siruguppa'')
       (str ''Red soil'') (str ''Kharif'') (str ''drip''))
     = Inr \<lparr>recommended_crop = str ''Paddy'',
            top_predictions = [\<lparr>crop = str ''Paddy'', score = 0.55\<rparr>,
                               \<lparr>crop = str ''Maize'', score = 0.25\<rparr>]\<rparr> \<and>
   match_loop RULES (str ''Siruguppa'') (str ''Kharif'') (str ''Red soil'') (str ''Canal'')
     ([], [], []) = ([RULES ! 0], [], []) \<and>
   match_loop RULES (str ''Siruguppa'') (str ''Kharif'') (str ''red soil'') (str ''Canal'')
     ([], [], []) = ([], [], [RULES ! 0]) \<and>
   match_loop RULES (str ''Siruguppa'') (str ''Kharif'') (str ''Red soil'') (str ''canal'')
     ([], [], []) = ([], [RULES ! 0], [])"
proof -
  have t: "recommend_over rs (trim q) = recommend_over rs q" for rs
    by (simp add: recommend_over_query query_fields_trim)
  have e: "recommend_over rs a = recommend_over rs b"
    if "\<forall>k. k \<in> set query_keys \<longrightarrow> strip (get_str a k) = strip (get_str b k)" for rs
    using that
    by (simp add: recommend_over_query region_of_def period_of_def soil_of_def water_of_def
        query_keys_def)
  have lower: "recommend (crop_model_input (str ''Karnataka'') (str ''siruguppa'') (str ''Red soil'')
       (str ''Kharif'') (str ''Canal'')) = Inr fallback_result"
    by (simp add: recommend_eval fallback_result_def fallback_crops_def)
  have upper: "recommend (crop_model_input (str ''Karnataka'') (str ''Siruguppa'') (str ''Red soil'')
       (str ''Kharif'') (str ''Canal'')) \<noteq> Inr fallback_result"
    by (simp add: recommend_eval fallback_result_def)
  have keys: "recommend (trim q) = recommend q \<and>
   recommend_over rules (trim q) = recommend_over rules q \<and>
   ((\<forall>k. k \<in> set query_keys \<longrightarrow> strip (get_str a k) = strip (get_str b k)) \<longrightarrow>
      recommend_over rules a = recommend_over rules b \<and> recommend a = recommend b) \<and>
   (r \<in> set (match_rules rules district season soil_type irrigation_source) \<longrightarrow>
      rule_district r = strip district \<and> rule_season r = strip season) \<and>
   (strip district \<noteq> rule_district r \<longrightarrow>
      r \<notin> set (match_rules rules district season soil_type irrigation_source)) \<and>
   recommend (crop_model_input (str ''Karnataka'') (str ''siruguppa'') (str ''Red soil'')
       (str ''Kharif'') (str ''Canal'')) = Inr fallback_result \<and>
   recommend (crop_model_input (str ''Karnataka'') (str ''Siruguppa'') (str ''Red soil'')
       (str ''Kharif'') (str ''Canal'')) \<noteq> Inr fallback_result"
    using t e lower upper
      match_rules_exact_keys [of r rules district season soil_type irrigation_source]
    by (auto simp: recommend_def)
  have n8: "match_loop rules (strip district) (strip season) (strip soil_type) (strip irrigation_source)
     ([], [], []) =
     (filter (\<lambda>x. rule_district x = strip district \<and> rule_season x = strip season \<and>
                 strip soil_type \<in> set (rule_soil_types x) \<and>
                 strip irrigation_source \<in> set (rule_irrigation x)) rules,
      filter (\<lambda>x. rule_district x = strip district \<and> rule_season x = strip season \<and>
                 strip soil_type \<in> set (rule_soil_types x) \<and>
                 strip irrigation_source \<notin> set (rule_irrigation x)) rules,
      filter (\<lambda>x. rule_district x = strip district \<and> rule_season x = strip season \<and>
                 strip soil_type \<notin> set (rule_soil_types x)) rules)"
    by (rule match_loop_explicit)
  have n9: "strip soil_type \<notin> set (rule_soil_types r) \<longrightarrow>
      r \<notin> set (fst (match_loop rules (strip district) (strip season) (strip soil_type)
                      (strip irrigation_source) ([], [], []))) \<and>
      r \<notin> set (fst (snd (match_loop rules (strip district) (strip season) (strip soil_type)
                      (strip irrigation_source) ([], [], []))))"
    using soil_mismatch_not_in_buckets by blast
  have n10: "strip irrigation_source \<notin> set (rule_irrigation r) \<longrightarrow>
      r \<notin> set (fst (match_loop rules (strip district) (strip season) (strip soil_type)
                      (strip irrigation_source) ([], [], [])))"
    using water_mismatch_not_exact by blast
  have n11: "strip soil_type \<notin> set (rule_soil_types r) \<and> x \<in> set rules \<and>
    rule_district x = strip district \<and> rule_season x = strip season \<and>
    strip soil_type \<in> set (rule_soil_types x) \<longrightarrow>
      r \<notin> set (match_rules rules district season soil_type irrigation_source)"
    using soil_mismatch_loses by blast
  have n12: "strip irrigation_source \<notin> set (rule_irrigation r) \<and> x \<in> set rules \<and>
    rule_district x = strip district \<and> rule_season x = strip season \<and>
    strip soil_type \<in> set (rule_soil_types x) \<and>
    strip irrigation_source \<in> set (rule_irrigation x) \<longrightarrow>
      r \<notin> set (match_rules rules district season soil_type irrigation_source)"
    using water_mismatch_loses by blast
  have i1: "recommend_over two_rule_table (crop_model_input (str ''Karnataka'') (str ''Siruguppa'')
       (str ''Red soil'') (str ''Kharif'') (str ''Drip''))
     = Inr \<lparr>recommended_crop = str ''Chilli'',
            top_predictions = [\<lparr>crop = str ''Chilli'', score = 0.5\<rparr>,
                               \<lparr>crop = str ''Maize'', score = 0.5\<rparr>,
                               \<lparr>crop = str ''Cotton'', score = 0.2\<rparr>]\<rparr>"
    by (simp add: recommend_over_def get_str_def match_rules_def two_rule_table_def strip_str
        isspace_def sorted_reverse_def first_label_def to_predictions_def crop_model_input_def)
  have i2: "recommend_over two_rule_table (crop_model_input (str ''Karnataka'') (str ''Siruguppa'')
       (str ''red soil'') (str ''Kharif'') (str ''Drip''))
     = Inr \<lparr>recommended_crop = str ''Paddy'',
            top_predictions = [\<lparr>crop = str ''Paddy'', score = 0.55\<rparr>,
                               \<lparr>crop = str ''Maize'', score = 0.25\<rparr>]\<rparr>"
    by (simp add: recommend_over_def get_str_def match_rules_def two_rule_table_def strip_str
        isspace_def sorted_reverse_def first_label_def to_predictions_def crop_model_input_def)
  have i3: "recommend_over two_rule_table (crop_model_input (str ''Karnataka'') (str ''Siruguppa'')
       (str ''Red soil'') (str ''Kharif'') (str ''drip''))
     = Inr \<lparr>recommended_crop = str ''Paddy'',
            top_predictions = [\<lparr>crop = str ''Paddy'', score = 0.55\<rparr>,
                               \<lparr>crop = str ''Maize'', score = 0.25\<rparr>]\<rparr>"
    by (simp add: recommend_over_def get_str_def match_rules_def two_rule_table_def strip_str
        isspace_def sorted_reverse_def first_label_def to_predictions_def crop_model_input_def)
  have i4: "match_loop RULES (str ''Siruguppa'') (str ''Kharif'') (str ''Red soil'') (str ''Canal'')
     ([], [], []) = ([RULES ! 0], [], [])"
    by (simp add: RULES_def)
  have i5: "match_loop RULES (str ''Siruguppa'') (str ''Kharif'') (str ''red soil'') (str ''Canal'')
     ([], [], []) = ([], [], [RULES ! 0])"
    by (simp add: RULES_def)
  have i6: "match_loop RULES (str ''Siruguppa'') (str ''Kharif'') (str ''Red soil'') (str ''canal'')
     ([], [], []) = ([], [RULES ! 0], [])"
    by (simp add: RULES_def)
  from keys n8 n9 n10 n11 n12 i1 i2 i3 i4 i5 i6 show ?thesis
    by (elim conjE) (intro conjI; assumption)
qed

theorem trim_invariant_case_sensitive_witness:
  "map (\<lambda>k. strip (get_str padded_query k)) query_keys
     = map (\<lambda>k. strip (get_str gangavathi_query k)) query_keys \<and>
   padded_query \<noteq> gangavathi_query \<and>
   recommend padded_query = recommend gangavathi_query \<and>
   strip (str '' gangavathi '') \<noteq> rule_district (RULES ! 6) \<and>
   RULES ! 6 \<notin> set (match_rules RULES (str '' gangavathi '') (str ''Kharif'') (str ''Black soil'')
      (str ''Canal'')) \<and>
   RULES ! 6 \<in> set (match_rules RULES (str '' Gangavathi '') (str ''Kharif'') (str ''Black soil'')
      (str ''Canal'')) \<and>
   strip (str ''red soil'') \<notin> set (rule_soil_types (two_rule_table ! 0)) \<and>
   two_rule_table ! 0 \<notin> set (fst (match_loop two_rule_table (strip (str ''Siruguppa'')) (strip (str ''Kharif''))
        (strip (str ''red soil'')) (strip (str ''Drip'')) ([], [], []))) \<and>
   two_rule_table ! 0 \<notin> set (fst (snd (match_loop two_rule_table (strip (str ''Siruguppa'')) (strip (str ''Kharif''))
        (strip (str ''red soil'')) (strip (str ''Drip'')) ([], [], [])))) \<and>
   strip (str ''canal'') \<notin> set (rule_irrigation (two_rule_table ! 0)) \<and>
   two_rule_table ! 0 \<notin> set (fst (match_loop two_rule_table (strip (str ''Siruguppa'')) (strip (str ''Kharif''))
        (strip (str ''Red soil'')) (strip (str ''canal'')) ([], [], []))) \<and>
   strip (str ''Black soil'') \<notin> set (rule_soil_types (two_rule_table ! 0)) \<and>
   two_rule_table ! 1 \<in> set two_rule_table \<and>
   rule_district (two_rule_table ! 1) = strip (str ''Siruguppa'') \<and>
   rule_season (two_rule_table ! 1) = strip (str ''Kharif'') \<and>
   strip (str ''Black soil'') \<in> set (rule_soil_types (two_rule_table ! 1)) \<and>
   two_rule_table ! 0 \<notin> set (match_rules two_rule_table (str ''Siruguppa'') (str ''Kharif'')
      (str ''Black soil'') (str ''Drip'')) \<and>
   strip (str ''Drip'') \<notin> set (rule_irrigation (two_rule_table ! 0)) \<and>
   two_rule_table ! 1 \<in> set two_rule_table \<and>
   rule_district (two_rule_table ! 1) = strip (str ''Siruguppa'') \<and>
   rule_season (two_rule_table ! 1) = strip (str ''Kharif'') \<and>
   strip (str ''Red soil'') \<in> set (rule_soil_types (two_rule_table ! 1)) \<and>
   strip (str ''Drip'') \<in> set (rule_irrigation (two_rule_table ! 1)) \<and>
   two_rule_table ! 0 \<notin> set (match_rules two_rule_table (str ''Siruguppa'') (str ''Kharif'')
      (str ''Red soil'') (str ''Drip''))"
proof -
  have h: "\<forall>k. k \<in> set query_keys \<longrightarrow>
      strip (get_str padded_query k) = strip (get_str gangavathi_query k)"
    by (simp add: query_keys_def padded_query_def gangavathi_query_def crop_model_input_def
        get_str_def strip_def str_def isspace_def)
  then have hm: "map (\<lambda>k. strip (get_str padded_query k)) query_keys
      = map (\<lambda>k. strip (get_str gangavathi_query k)) query_keys"
    by simp
  have d: "padded_query \<noteq> gangavathi_query"
  proof
    assume "padded_query = gangavathi_query"
    then have "padded_query (str ''district'') = gangavathi_query (str ''district'')"
      by simp
    then show False
      by (simp add: padded_query_def gangavathi_query_def crop_model_input_def)
  qed
  have c: "strip (str '' gangavathi '') \<noteq> rule_district (RULES ! 6)"
    by (simp add: strip_str isspace_def RULES_def)
  have m: "RULES ! 6 \<in> set (match_rules RULES (str '' Gangavathi '') (str ''Kharif'')
      (str ''Black soil'') (str ''Canal''))"
    by (simp add: match_rules_def strip_str isspace_def RULES_def)
  have g9: "strip (str ''red soil'') \<notin> set (rule_soil_types (two_rule_table ! 0))"
    by (simp add: strip_str isspace_def two_rule_table_def)
  have g10: "strip (str ''canal'') \<notin> set (rule_irrigation (two_rule_table ! 0))"
    by (simp add: strip_str isspace_def two_rule_table_def)
  have g11: "strip (str ''Black soil'') \<notin> set (rule_soil_types (two_rule_table ! 0)) \<and>
   two_rule_table ! 1 \<in> set two_rule_table \<and>
   rule_district (two_rule_table ! 1) = strip (str ''Siruguppa'') \<and>
   rule_season (two_rule_table ! 1) = strip (str ''Kharif'') \<and>
   strip (str ''Black soil'') \<in> set (rule_soil_types (two_rule_table ! 1))"
    by (simp add: strip_str isspace_def two_rule_table_def)
  have g12: "strip (str ''Drip'') \<notin> set (rule_irrigation (two_rule_table ! 0)) \<and>
   two_rule_table ! 1 \<in> set two_rule_table \<and>
   rule_district (two_rule_table ! 1) = strip (str ''Siruguppa'') \<and>
   rule_season (two_rule_table ! 1) = strip (str ''Kharif'') \<and>
   strip (str ''Red soil'') \<in> set (rule_soil_types (two_rule_table ! 1)) \<and>
   strip (str ''Drip'') \<in> set (rule_irrigation (two_rule_table ! 1))"
    by (simp add: strip_str isspace_def two_rule_table_def)
  from trim_invariant_case_sensitive [of _ _ padded_query gangavathi_query,
      THEN conjunct2, THEN conjunct2, THEN conjunct1, THEN mp, OF h]
    trim_invariant_case_sensitive [of _ RULES _ _ "RULES ! 6" "str '' gangavathi ''"
      "str ''Kharif''" "str ''Black soil''" "str ''Canal''",
      THEN conjunct2, THEN conjunct2, THEN conjunct2, THEN conjunct2, THEN conjunct1, THEN mp, OF c]
    trim_invariant_case_sensitive [where rules = two_rule_table and r = "two_rule_table ! 0" and district = "str ''Siruguppa''"
      and season = "str ''Kharif''" and soil_type = "str ''red soil''"
      and irrigation_source = "str ''Drip''",
      THEN conjunct2, THEN conjunct2, THEN conjunct2, THEN conjunct2, THEN conjunct2, THEN conjunct2, THEN conjunct2, THEN conjunct2, THEN conjunct1, THEN mp, OF g9]
    trim_invariant_case_sensitive [where rules = two_rule_table and r = "two_rule_table ! 0" and district = "str ''Siruguppa''"
      and season = "str ''Kharif''" and soil_type = "str ''Red soil''"
      and irrigation_source = "str ''canal''",
      THEN conjunct2, THEN conjunct2, THEN conjunct2, THEN conjunct2, THEN conjunct2, THEN conjunct2, THEN conjunct2, THEN conjunct2, THEN conjunct2, THEN conjunct1, THEN mp, OF g10]
    trim_invariant_case_sensitive [where rules = two_rule_table and r = "two_rule_table ! 0" and district = "str ''Siruguppa''"
      and season = "str ''Kharif''" and soil_type = "str ''Black soil''"
      and irrigation_source = "str ''Drip''" and x = "two_rule_table ! 1",
      THEN conjunct2, THEN conjunct2, THEN conjunct2, THEN conjunct2, THEN conjunct2, THEN conjunct2, THEN conjunct2, THEN conjunct2, THEN conjunct2, THEN conjunct2, THEN conjunct1, THEN mp, OF g11]
    trim_invariant_case_sensitive [where rules = two_rule_table and r = "two_rule_table ! 0" and district = "str ''Siruguppa''"
      and season = "str ''Kharif''" and soil_type = "str ''Red soil''"
      and irrigation_source = "str ''Drip''" and x = "two_rule_table ! 1",
      THEN conjunct2, THEN conjunct2, THEN conjunct2, THEN conjunct2, THEN conjunct2, THEN conjunct2, THEN conjunct2, THEN conjunct2, THEN conjunct2, THEN conjunct2, THEN conjunct2, THEN conjunct1, THEN mp, OF g12]
    hm d c m g9 g10 g11 g12
  show ?thesis
    by simp
qed


section \<open>Properties of the yield predictor\<close>

lemma map_filter_pairs:
  "set (List.map_filter (\<lambda>f. case input_data f of None \<Rightarrow> None | Some v \<Rightarrow> Some (f, v)) fs)
     = {(f, v). f \<in> set fs \<and> input_data f = Some v}"
  by (induction fs) (auto split: option.splits)

lemma available_features_set:
  "set (available_features input_data) = {(f, v). f \<in> set features \<and> input_data f = Some v}"
  unfolding available_features_def by (rule map_filter_pairs)

lemma encode_feature_unknown:
  "encoders f = Some le \<Longrightarrow> v \<notin> set (classes le) \<Longrightarrow> encode_feature encoders (f, v) = (f, Code 0)"
  by (simp add: encode_feature_def)

lemma encode_feature_fst: "fst (encode_feature encoders (f, v)) = f"
  by (simp add: encode_feature_def transform_def split: option.splits)

lemma encode_row_cell:
  "(f, c) \<in> set (encode_row encoders input_data) \<longleftrightarrow>
     f \<in> set features \<and> (\<exists>v. input_data f = Some v \<and> encode_feature encoders (f, v) = (f, c))"
proof
  assume "(f, c) \<in> set (encode_row encoders input_data)"
  then obtain g v where gv: "(g, v) \<in> set (available_features input_data)"
      and e: "encode_feature encoders (g, v) = (f, c)"
    by (auto simp: encode_row_def)
  from e have "g = f"
    using encode_feature_fst [of encoders g v] by simp
  with gv e show "f \<in> set features \<and>
      (\<exists>v. input_data f = Some v \<and> encode_feature encoders (f, v) = (f, c))"
    by (auto simp: available_features_set)
next
  assume "f \<in> set features \<and>
      (\<exists>v. input_data f = Some v \<and> encode_feature encoders (f, v) = (f, c))"
  then obtain v where "(f, v) \<in> set (available_features input_data)"
      and "encode_feature encoders (f, v) = (f, c)"
    by (auto simp: available_features_set)
  then show "(f, c) \<in> set (encode_row encoders input_data)"
    by (force simp: encode_row_def)
qed

lemma generate_recommendations_Inr:
  "input_data (str ''soil_type'') = Some soil \<Longrightarrow>
   input_data (str ''irrigation_source'') = Some irrigation \<Longrightarrow>
   input_data (str ''season'') = Some season \<Longrightarrow>
   \<exists>recs. generate_recommendations input_data y = Inr recs"
  by (simp add: generate_recommendations_def)

text \<open>
  Claim C8. When the request's value of a feature is not in the vocabulary fitted for
  that feature, the encoding does not fail: the cell of the feature in the row given to
  the estimator is the code 0 and nothing else. The prediction goes on with that row:
  when the estimator returns a value on it (and the request has the three keys that the
  advice is computed from, as every request of the route has), \<open>predict\<close> returns a
  result with that value, rounded.
\<close>

theorem unknown_category_gets_code_zero:
  "f \<in> set features \<and> input_data f = Some v \<and> label_encoders self f = Some le \<and>
   v \<notin> set (classes le) \<longrightarrow>
     encode_feature (label_encoders self) (f, v) = (f, Code 0) \<and>
     (\<forall>c. (f, c) \<in> set (encode_row (label_encoders self) input_data) \<longleftrightarrow> c = Code 0) \<and>
     (model self = Some m \<and>
      model_predict w m (encode_row (label_encoders self) input_data) = Some y \<and>
      input_data (str ''soil_type'') = Some soil \<and>
      input_data (str ''irrigation_source'') = Some irrigation \<and>
      input_data (str ''season'') = Some season \<longrightarrow>
        (\<exists>res. predict w self input_data = (Some res, self) \<and>
               predicted_yield res = round2 w y))"
proof (intro impI, elim conjE)
  assume f: "f \<in> set features" and v: "input_data f = Some v"
    and le: "label_encoders self f = Some le" and un: "v \<notin> set (classes le)"
  have zero: "encode_feature (label_encoders self) (f, v) = (f, Code 0)"
    using le un by (rule encode_feature_unknown)
  have cell: "\<forall>c. (f, c) \<in> set (encode_row (label_encoders self) input_data) \<longleftrightarrow> c = Code 0"
  proof (intro allI iffI)
    fix c
    assume "(f, c) \<in> set (encode_row (label_encoders self) input_data)"
    then obtain v' where "input_data f = Some v'"
        and e: "encode_feature (label_encoders self) (f, v') = (f, c)"
      unfolding encode_row_cell by blast
    with v have "v' = v" by simp
    with e zero show "c = Code 0" by simp
  next
    fix c :: cell
    assume "c = Code 0"
    with f v zero show "(f, c) \<in> set (encode_row (label_encoders self) input_data)"
      unfolding encode_row_cell by blast
  qed
  have proceeds: "\<exists>res. predict w self input_data = (Some res, self) \<and>
      predicted_yield res = round2 w y"
    if "model self = Some m"
      and "model_predict w m (encode_row (label_encoders self) input_data) = Some y"
      and "input_data (str ''soil_type'') = Some soil"
      and "input_data (str ''irrigation_source'') = Some irrigation"
      and "input_data (str ''season'') = Some season"
  proof -
    from generate_recommendations_Inr [OF that(3) that(4) that(5), of y]
    obtain recs where recs: "generate_recommendations input_data y = Inr recs" ..
    from that(1) that(2) recs show ?thesis
      by (simp add: predict_def predict_with_def)
  qed
  show "encode_feature (label_encoders self) (f, v) = (f, Code 0) \<and>
     (\<forall>c. (f, c) \<in> set (encode_row (label_encoders self) input_data) \<longleftrightarrow> c = Code 0) \<and>
     (model self = Some m \<and>
      model_predict w m (encode_row (label_encoders self) input_data) = Some y \<and>
      input_data (str ''soil_type'') = Some soil \<and>
      input_data (str ''irrigation_source'') = Some irrigation \<and>
      input_data (str ''season'') = Some season \<longrightarrow>
        (\<exists>res. predict w self input_data = (Some res, self) \<and>
               predicted_yield res = round2 w y))"
  proof (intro conjI impI)
    show "encode_feature (label_encoders self) (f, v) = (f, Code 0)"
      by (rule zero)
    show "\<forall>c. (f, c) \<in> set (encode_row (label_encoders self) input_data) \<longleftrightarrow> c = Code 0"
      by (rule cell)
    assume "model self = Some m \<and>
      model_predict w m (encode_row (label_encoders self) input_data) = Some y \<and>
      input_data (str ''soil_type'') = Some soil \<and>
      input_data (str ''irrigation_source'') = Some irrigation \<and>
      input_data (str ''season'') = Some season"
    then show "\<exists>res. predict w self input_data = (Some res, self) \<and>
               predicted_yield res = round2 w y"
      using proceeds by simp
  qed
qed

lemmas yield_eval =
  features_def sandy_request_def loaded_predictor_def example_encoders_def example_world_def
  new_predictor_def is_code_def

theorem unknown_category_gets_code_zero_witness:
  "str ''soil_type'' \<in> set features \<and>
   sandy_request (str ''soil_type'') = Some (str ''Sandy soil'') \<and>
   label_encoders loaded_predictor (str ''soil_type'')
     = Some \<lparr>classes = [str ''Black soil'', str ''Red soil'']\<rparr> \<and>
   str ''Sandy soil'' \<notin> set (classes \<lparr>classes = [str ''Black soil'', str ''Red soil'']\<rparr>) \<and>
   encode_row (label_encoders loaded_predictor) sandy_request
     = [(str ''state'', Code 0), (str ''district'', Code 2), (str ''crop_name'', Code 1),
        (str ''soil_type'', Code 0), (str ''season'', Code 0),
        (str ''irrigation_source'', Code 1)] \<and>
   model_predict example_world 7 (encode_row (label_encoders loaded_predictor) sandy_request)
     = Some 2.5 \<and>
   (\<exists>res. predict example_world loaded_predictor sandy_request = (Some res, loaded_predictor) \<and>
          predicted_yield res = round2 example_world 2.5)"
proof -
  have h1: "str ''soil_type'' \<in> set features \<and>
      sandy_request (str ''soil_type'') = Some (str ''Sandy soil'') \<and>
      label_encoders loaded_predictor (str ''soil_type'')
        = Some \<lparr>classes = [str ''Black soil'', str ''Red soil'']\<rparr> \<and>
      str ''Sandy soil'' \<notin> set (classes \<lparr>classes = [str ''Black soil'', str ''Red soil'']\<rparr>)"
    by (simp add: yield_eval)
  have row: "encode_row (label_encoders loaded_predictor) sandy_request
     = [(str ''state'', Code 0), (str ''district'', Code 2), (str ''crop_name'', Code 1),
        (str ''soil_type'', Code 0), (str ''season'', Code 0),
        (str ''irrigation_source'', Code 1)]"
    by (simp add: encode_row_def available_features_def encode_feature_def transform_def
        yield_eval)
  have p: "model_predict example_world 7 (encode_row (label_encoders loaded_predictor) sandy_request)
     = Some 2.5"
    unfolding row by (simp add: example_world_def is_code_def)
  have h2: "model loaded_predictor = Some 7 \<and>
      model_predict example_world 7 (encode_row (label_encoders loaded_predictor) sandy_request)
        = Some 2.5 \<and>
      sandy_request (str ''soil_type'') = Some (str ''Sandy soil'') \<and>
      sandy_request (str ''irrigation_source'') = Some (str ''Canal'') \<and>
      sandy_request (str ''season'') = Some (str ''Kharif'')"
    using p by (simp add: loaded_predictor_def sandy_request_def)
  from unknown_category_gets_code_zero [where f = "str ''soil_type''" and input_data = sandy_request
      and v = "str ''Sandy soil''" and self = loaded_predictor
      and le = "\<lparr>classes = [str ''Black soil'', str ''Red soil'']\<rparr>"
      and m = 7 and w = example_world and y = "2.5" and soil = "str ''Sandy soil''"
      and irrigation = "str ''Canal''" and season = "str ''Kharif''",
      THEN mp, OF h1, THEN conjunct2, THEN conjunct2, THEN mp, OF h2]
    h1 row p
  show ?thesis by blast
qed

text \<open>
  Claim C9. With no model in memory, \<open>predict\<close> first loads the saved model and the
  saved encoders and goes on with them, and leaves them in the predictor; with a model in
  memory it loads nothing. When one of the two loads fails, \<open>predict\<close> returns \<open>None\<close>,
  not a prediction and not an exception, and the route answers with an error: for a
  request with all required fields, status 500 and the detail
  \<open>Prediction model not available\<close>.
\<close>

theorem lazy_load_or_unavailable:
  "(model self = None \<and> load_model w = Some m \<and> load_encoders w = Some encoders \<longrightarrow>
      predict w self input_data =
        (predict_with w (self\<lparr>model := Some m, label_encoders := encoders,
                              is_trained_on_real_data := True\<rparr>) m input_data,
         self\<lparr>model := Some m, label_encoders := encoders, is_trained_on_real_data := True\<rparr>)) \<and>
   (model self = Some m \<longrightarrow> predict w self input_data = (predict_with w self m input_data, self)) \<and>
   (model self = None \<and> (load_model w = None \<or> load_encoders w = None) \<longrightarrow>
      fst (predict w self input_data) = None \<and>
      (\<exists>status detail. fst (predict_yield_route w self yield_data)
          = Inl (HTTPException status detail)) \<and>
      (List.find (missing yield_data) required_fields = None \<longrightarrow>
         fst (predict_yield_route w self yield_data)
           = Inl (HTTPException 500 (str ''Prediction model not available''))))"
proof -
  have fails: "fst (predict w self d) = None"
    if "model self = None" and "load_model w = None \<or> load_encoders w = None" for d
    using that by (auto simp: predict_def split: option.splits)
  have route: "fst (predict_yield_route w self yield_data)
      = Inl (HTTPException 500 (str ''Prediction model not available''))"
    if "model self = None" and "load_model w = None \<or> load_encoders w = None"
      and "List.find (missing yield_data) required_fields = None"
  proof -
    from fails [OF that(1) that(2)]
    obtain self' where "predict w self (yield_data |` set model_features) = (None, self')"
      by (metis prod.collapse)
    with that(3) show ?thesis
      by (simp add: predict_yield_route_def)
  qed
  have error: "\<exists>status detail. fst (predict_yield_route w self yield_data)
      = Inl (HTTPException status detail)"
    if "model self = None" and "load_model w = None \<or> load_encoders w = None"
  proof (cases "List.find (missing yield_data) required_fields")
    case None
    from route [OF that this] show ?thesis by blast
  next
    case (Some field)
    then show ?thesis
      by (simp add: predict_yield_route_def)
  qed
  show ?thesis
  proof (intro conjI impI)
    assume "model self = None \<and> load_model w = Some m \<and> load_encoders w = Some encoders"
    then show "predict w self input_data =
        (predict_with w (self\<lparr>model := Some m, label_encoders := encoders,
                              is_trained_on_real_data := True\<rparr>) m input_data,
         self\<lparr>model := Some m, label_encoders := encoders, is_trained_on_real_data := True\<rparr>)"
      by (simp add: predict_def Let_def)
  next
    assume "model self = Some m"
    then show "predict w self input_data = (predict_with w self m input_data, self)"
      by (simp add: predict_def)
  next
    assume "model self = None \<and> (load_model w = None \<or> load_encoders w = None)"
    then show "fst (predict w self input_data) = None"
      using fails by blast
  next
    assume "model self = None \<and> (load_model w = None \<or> load_encoders w = None)"
    then show "\<exists>status detail. fst (predict_yield_route w self yield_data)
        = Inl (HTTPException status detail)"
      using error by blast
  next
    assume "model self = None \<and> (load_model w = None \<or> load_encoders w = None)"
      and "List.find (missing yield_data) required_fields = None"
    then show "fst (predict_yield_route w self yield_data)
        = Inl (HTTPException 500 (str ''Prediction model not available''))"
      using route by blast
  qed
qed

theorem lazy_load_or_unavailable_witness:
  "model (new_predictor :: nat yield_predictor) = None \<and>
   load_model (example_world\<lparr>load_encoders := None\<rparr>) = Some 7 \<and>
   load_encoders (example_world\<lparr>load_encoders := None\<rparr>) = None \<and>
   List.find (missing sandy_request) required_fields = None \<and>
   fst (predict (example_world\<lparr>load_encoders := None\<rparr>) new_predictor sandy_request) = None \<and>
   fst (predict_yield_route (example_world\<lparr>load_encoders := None\<rparr>) new_predictor sandy_request)
     = Inl (HTTPException 500 (str ''Prediction model not available'')) \<and>
   load_model example_world = Some 7 \<and> load_encoders example_world = Some example_encoders \<and>
   predict example_world new_predictor sandy_request
     = (predict_with example_world loaded_predictor 7 sandy_request, loaded_predictor)"
proof -
  have n: "model (new_predictor :: nat yield_predictor) = None \<and>
      (load_model (example_world\<lparr>load_encoders := None\<rparr>) = None \<or>
       load_encoders (example_world\<lparr>load_encoders := None\<rparr>) = None)"
    by (simp add: new_predictor_def)
  have r: "List.find (missing sandy_request) required_fields = None"
    by (simp add: missing_def required_fields_def sandy_request_def)
  have l: "model (new_predictor :: nat yield_predictor) = None \<and>
      load_model example_world = Some 7 \<and> load_encoders example_world = Some example_encoders"
    by (simp add: new_predictor_def example_world_def)
  have s: "(new_predictor :: nat yield_predictor)\<lparr>model := Some 7,
      label_encoders := example_encoders, is_trained_on_real_data := True\<rparr> = loaded_predictor"
    by (simp add: new_predictor_def loaded_predictor_def)
  note t = lazy_load_or_unavailable [where self = "new_predictor :: nat yield_predictor"
      and input_data = sandy_request and yield_data = sandy_request]
  from t [where w = example_world and m = 7 and encoders = example_encoders,
      THEN conjunct1, THEN mp, OF l]
    t [where w = "example_world\<lparr>load_encoders := None\<rparr>",
      THEN conjunct2, THEN conjunct2, THEN mp, OF n]
    n r l
  show ?thesis
    unfolding s by (simp add: example_world_def)
qed


end
